theory Spec2Isabelle
  imports Main "HOL-Library.Word"
begin

section \<open>Strings, bytes and paths\<close>

text \<open>
  Python \<^verbatim>\<open>bytes\<close> are lists of 8-bit words, Python \<^verbatim>\<open>str\<close> is \<^typ>\<open>string\<close>.
  Only the operations that \<^verbatim>\<open>validators.py\<close> and \<^verbatim>\<open>actions.py\<close> call are modelled.
\<close>

type_synonym byte = "8 word"

text \<open>\<^verbatim>\<open>bytes.startswith(prefix)\<close>.\<close>

definition startswith :: "byte list \<Rightarrow> byte list \<Rightarrow> bool" where
  "startswith s p = (take (length p) s = p)"

text \<open>
  \<^verbatim>\<open>str.lower()\<close> and \<^verbatim>\<open>str.upper()\<close>, on the ASCII letters. (Python also maps
  letters outside ASCII; none of them is mapped to a letter of \<^verbatim>\<open>png\<close>, \<^verbatim>\<open>jpg\<close>
  or \<^verbatim>\<open>jpeg\<close>, which is all the code compares the result with.)
\<close>

definition lower_char :: "char \<Rightarrow> char" where
  "lower_char c =
     (let n = (of_char c :: nat) in if 65 \<le> n \<and> n \<le> 90 then char_of (n + 32) else c)"

definition upper_char :: "char \<Rightarrow> char" where
  "upper_char c =
     (let n = (of_char c :: nat) in if 97 \<le> n \<and> n \<le> 122 then char_of (n - 32) else c)"

definition lower :: "string \<Rightarrow> string" where
  "lower s = map lower_char s"

definition upper :: "string \<Rightarrow> string" where
  "upper s = map upper_char s"

text \<open>\<^verbatim>\<open>s.lstrip('.')\<close>: every leading dot is removed.\<close>

definition lstrip_dot :: "string \<Rightarrow> string" where
  "lstrip_dot s = dropWhile (\<lambda>c. c = CHR ''.'') s"

text \<open>\<^verbatim>\<open>s.rfind(c)\<close>: the index of the last occurrence, \<open>-1\<close> when there is none.\<close>

fun rfind :: "char \<Rightarrow> string \<Rightarrow> int" where
  "rfind c [] = - 1"
| "rfind c (x # xs) =
     (let r = rfind c xs in if r \<noteq> - 1 then r + 1 else if x = c then 0 else - 1)"

text \<open>\<^verbatim>\<open>s.split('/')\<close> and \<^verbatim>\<open>'/'.join(parts)\<close>.\<close>

fun split_sep :: "string \<Rightarrow> string list" where
  "split_sep [] = [[]]"
| "split_sep (c # cs) =
     (if c = CHR ''/'' then [] # split_sep cs
      else (case split_sep cs of [] \<Rightarrow> [[c]] | w # ws \<Rightarrow> (c # w) # ws))"

fun join_sep :: "string list \<Rightarrow> string" where
  "join_sep [] = []"
| "join_sep [w] = w"
| "join_sep (w # ws) = w @ ''/'' @ join_sep ws"

text \<open>\<^verbatim>\<open>str(n)\<close> for a natural number: its decimal digits.\<close>

fun str_nat :: "nat \<Rightarrow> string" where
  "str_nat n =
     (if n < 10 then [char_of (48 + n)] else str_nat (n div 10) @ [char_of (48 + n mod 10)])"

declare str_nat.simps [simp del]

text \<open>
  A \<^verbatim>\<open>pathlib.Path\<close> object, as the POSIX flavour of pathlib parses a string: whether it
  is anchored at the root, and its components, with empty components and \<^verbatim>\<open>.\<close> dropped.
  (pathlib keeps exactly two leading slashes apart from one; that distinction is left out.)
\<close>

datatype path = PurePath (is_absolute: bool) (parts: "string list")

definition parse_path :: "string \<Rightarrow> path" where
  "parse_path s =
     PurePath (take 1 s = ''/'') (filter (\<lambda>w. w \<noteq> [] \<and> w \<noteq> ''.'') (split_sep s))"

definition str_path :: "path \<Rightarrow> string" where
  "str_path p =
     (if parts p = [] then (if is_absolute p then ''/'' else ''.'')
      else (if is_absolute p then ''/'' else []) @ join_sep (parts p))"

text \<open>
  The code's path arguments are \<^verbatim>\<open>Union[str, Path]\<close>. \<^verbatim>\<open>Path(x)\<close> parses a string and
  leaves a path object as it is; \<^verbatim>\<open>str(x)\<close> (what an f-string prints) is the string itself
  or the rendering of the path object.
\<close>

datatype path_like = Str string | PathObj path

fun Path :: "path_like \<Rightarrow> path" where
  "Path (Str s) = parse_path s"
| "Path (PathObj p) = p"

fun str :: "path_like \<Rightarrow> string" where
  "str (Str s) = s"
| "str (PathObj p) = str_path p"

text \<open>
  \<^verbatim>\<open>path.name\<close>, \<^verbatim>\<open>path.suffix\<close>, \<^verbatim>\<open>path.stem\<close>, \<^verbatim>\<open>path.parent\<close> and \<^verbatim>\<open>path / name\<close>
  (for a \<open>name\<close> that is one component). The suffix starts at the last dot of the
  name, unless that dot is the first or the last character of the name; the stem is the
  name without its suffix. The parent of a path without components is the path itself.
\<close>

definition name :: "path \<Rightarrow> string" where
  "name p = (if parts p = [] then [] else last (parts p))"

definition suffix :: "path \<Rightarrow> string" where
  "suffix p =
     (let n = name p; i = rfind CHR ''.'' n
      in if 0 < i \<and> i < int (length n) - 1 then drop (nat i) n else [])"

definition stem :: "path \<Rightarrow> string" where
  "stem p =
     (let n = name p; i = rfind CHR ''.'' n
      in if 0 < i \<and> i < int (length n) - 1 then take (nat i) n else n)"

definition parent :: "path \<Rightarrow> path" where
  "parent p = PurePath (is_absolute p) (butlast (parts p))"

definition joinpath :: "path \<Rightarrow> string \<Rightarrow> path" where
  "joinpath p n = PurePath (is_absolute p) (parts p @ [n])"

section \<open>The file system\<close>

text \<open>
  Exceptions are values. An \<^verbatim>\<open>OSError\<close> carries its error number:
  \<^verbatim>\<open>FileNotFoundError\<close> is \<open>OSError ENOENT\<close>, \<^verbatim>\<open>FileExistsError\<close> is \<open>OSError EEXIST\<close>,
  \<^verbatim>\<open>NotADirectoryError\<close> is \<open>OSError ENOTDIR\<close>, \<^verbatim>\<open>IsADirectoryError\<close> is \<open>OSError EISDIR\<close>
  and \<^verbatim>\<open>PermissionError\<close> is \<open>OSError EACCES\<close>. \<open>Exception\<close> stands for every other
  exception, with its message.
\<close>

datatype errno = ENOENT | EEXIST | ENOTDIR | EISDIR | EACCES

datatype exn =
    FileValidationError string
  | PDFActionError string
  | OSError errno
  | Exception string

fun strerror :: "errno \<Rightarrow> string" where
  "strerror ENOENT = ''No such file or directory''"
| "strerror EEXIST = ''File exists''"
| "strerror ENOTDIR = ''Not a directory''"
| "strerror EISDIR = ''Is a directory''"
| "strerror EACCES = ''Permission denied''"

text \<open>
  \<^verbatim>\<open>str(e)\<close>: the message of an exception; for an \<^verbatim>\<open>OSError\<close> the text of its error
  number (Python puts the number before it and the file name after it).
\<close>

fun str_exn :: "exn \<Rightarrow> string" where
  "str_exn (FileValidationError m) = m"
| "str_exn (PDFActionError m) = m"
| "str_exn (OSError e) = strerror e"
| "str_exn (Exception m) = m"

text \<open>
  The file system maps a path to what is stored there. A regular file carries its bytes
  and, when it cannot be opened for reading, the error number of the \<^verbatim>\<open>OSError\<close> that
  opening it raises. A path given as a string designates the file of its parsed form.
\<close>

datatype node = Directory | RegularFile (read_error: "errno option") (content: "byte list")

type_synonym filesystem = "path \<Rightarrow> node option"

text \<open>\<^verbatim>\<open>path.exists()\<close>, \<^verbatim>\<open>path.is_file()\<close> and \<^verbatim>\<open>path.is_dir()\<close>.\<close>

definition exists :: "filesystem \<Rightarrow> path \<Rightarrow> bool" where
  "exists fs p = (fs p \<noteq> None)"

definition is_file :: "filesystem \<Rightarrow> path \<Rightarrow> bool" where
  "is_file fs p = (case fs p of Some (RegularFile r bs) \<Rightarrow> True | _ \<Rightarrow> False)"

definition is_dir :: "filesystem \<Rightarrow> path \<Rightarrow> bool" where
  "is_dir fs p = (case fs p of Some Directory \<Rightarrow> True | _ \<Rightarrow> False)"

text \<open>\<^verbatim>\<open>with open(p, 'rb') as f: f.read()\<close>: the whole content, or \<^verbatim>\<open>OSError\<close>.\<close>

definition open_rb :: "filesystem \<Rightarrow> path \<Rightarrow> exn + byte list" where
  "open_rb fs p =
     (case fs p of
        None \<Rightarrow> Inl (OSError ENOENT)
      | Some Directory \<Rightarrow> Inl (OSError EISDIR)
      | Some (RegularFile None bs) \<Rightarrow> Inr bs
      | Some (RegularFile (Some n) bs) \<Rightarrow> Inl (OSError n))"

text \<open>\<^verbatim>\<open>with open(p, 'rb') as f: f.read(n)\<close>: at most \<open>n\<close> leading bytes.\<close>

definition read_header :: "filesystem \<Rightarrow> path \<Rightarrow> nat \<Rightarrow> exn + byte list" where
  "read_header fs p n = (case open_rb fs p of Inl e \<Rightarrow> Inl e | Inr bs \<Rightarrow> Inr (take n bs))"

section \<open>validators.py\<close>

text \<open>The class attribute \<^verbatim>\<open>Validator.MAGIC_NUMBERS\<close>, a dictionary.\<close>

definition pdf_magic :: "byte list" where
  "pdf_magic = [0x25, 0x50, 0x44, 0x46]"

definition png_magic :: "byte list" where
  "png_magic = [0x89, 0x50, 0x4E, 0x47, 0x0D, 0x0A, 0x1A, 0x0A]"

definition jpeg_magic :: "byte list" where
  "jpeg_magic = [0xFF, 0xD8, 0xFF]"

definition MAGIC_NUMBERS :: "string \<Rightarrow> byte list option" where
  "MAGIC_NUMBERS =
     map_of [(''pdf'', pdf_magic), (''png'', png_magic),
             (''jpg'', jpeg_magic), (''jpeg'', jpeg_magic)]"

definition validate_file :: "filesystem \<Rightarrow> path_like \<Rightarrow> exn + bool" where
  "validate_file fs file_path =
     (let path = Path file_path in
      if \<not> exists fs path then
        Inl (FileValidationError (''File not found: '' @ str file_path))
      else if \<not> is_file fs path then
        Inl (FileValidationError (''Path is not a file: '' @ str file_path))
      else Inr True)"

text \<open>
  In \<^verbatim>\<open>validate_pdf\<close> and \<^verbatim>\<open>validate_image\<close> the handler \<^verbatim>\<open>except OSError\<close> turns an
  \<^verbatim>\<open>OSError\<close> of the read into a \<^verbatim>\<open>FileValidationError\<close> and lets any other exception
  through; the \<^verbatim>\<open>FileValidationError\<close> raised inside the \<^verbatim>\<open>try\<close> block is not an
  \<^verbatim>\<open>OSError\<close> and is not caught there.
\<close>

definition validate_pdf :: "filesystem \<Rightarrow> path_like \<Rightarrow> exn + bool" where
  "validate_pdf fs file_path =
     (case validate_file fs file_path of
        Inl e \<Rightarrow> Inl e
      | Inr _ \<Rightarrow>
          (case read_header fs (Path file_path) 4 of
             Inl (OSError n) \<Rightarrow>
               Inl (FileValidationError
                      (''Error reading file '' @ str file_path @ '': '' @
                       str_exn (OSError n)))
           | Inl e \<Rightarrow> Inl e
           | Inr header \<Rightarrow>
               (case MAGIC_NUMBERS ''pdf'' of
                  None \<Rightarrow> Inl (Exception ''KeyError'')
                | Some magic \<Rightarrow>
                    if \<not> startswith header magic then
                      Inl (FileValidationError
                             (''Invalid PDF file header: '' @ str file_path))
                    else Inr True)))"

definition validate_image :: "filesystem \<Rightarrow> path_like \<Rightarrow> exn + bool" where
  "validate_image fs file_path =
     (case validate_file fs file_path of
        Inl e \<Rightarrow> Inl e
      | Inr _ \<Rightarrow>
          (let path = Path file_path; ext = lstrip_dot (lower (suffix path)) in
           if ext \<notin> set [''png'', ''jpg'', ''jpeg''] then
             Inl (FileValidationError (''Unsupported image extension: '' @ ext))
           else
             (case MAGIC_NUMBERS ext of
                None \<Rightarrow> Inl (FileValidationError (''Unsupported image type: '' @ ext))
              | Some magic \<Rightarrow>
                  if magic = [] then
                    Inl (FileValidationError (''Unsupported image type: '' @ ext))
                  else
                    (case read_header fs (Path file_path) (length magic) of
                       Inl (OSError n) \<Rightarrow>
                         Inl (FileValidationError
                                (''Error reading file '' @ str file_path @ '': '' @
                                 str_exn (OSError n)))
                     | Inl e \<Rightarrow> Inl e
                     | Inr header \<Rightarrow>
                         if \<not> startswith header magic then
                           Inl (FileValidationError
                                  (''Invalid '' @ upper ext @ '' file header: '' @
                                   str file_path))
                         else Inr True))))"

text \<open>
  The body of the loop of \<^verbatim>\<open>validate_paths\<close> validates one path object: with
  \<^verbatim>\<open>validate_pdf\<close> when \<^verbatim>\<open>file_type == 'pdf'\<close>, with \<^verbatim>\<open>validate_image\<close> when
  \<^verbatim>\<open>file_type == 'image'\<close>; any other \<^verbatim>\<open>file_type\<close> takes neither branch of the
  \<^verbatim>\<open>if\<close>/\<^verbatim>\<open>elif\<close>, and nothing is validated.
\<close>

definition validate_one :: "filesystem \<Rightarrow> string \<Rightarrow> path \<Rightarrow> exn + bool" where
  "validate_one fs file_type path_obj =
     (if file_type = ''pdf'' then validate_pdf fs (PathObj path_obj)
      else if file_type = ''image'' then validate_image fs (PathObj path_obj)
      else Inr True)"

text \<open>
  The loop itself, with the list \<^verbatim>\<open>validated_paths\<close> built so far as an accumulator:
  an exception of the validator leaves the loop at once.
\<close>

fun validate_paths_loop ::
  "filesystem \<Rightarrow> path_like list \<Rightarrow> string \<Rightarrow> path list \<Rightarrow> exn + path list" where
  "validate_paths_loop fs [] file_type validated_paths = Inr validated_paths"
| "validate_paths_loop fs (p # ps) file_type validated_paths =
     (let path_obj = Path p in
      case validate_one fs file_type path_obj of
        Inl e \<Rightarrow> Inl e
      | Inr _ \<Rightarrow> validate_paths_loop fs ps file_type (validated_paths @ [path_obj]))"

definition validate_paths :: "filesystem \<Rightarrow> path_like list \<Rightarrow> string \<Rightarrow> exn + path list" where
  "validate_paths fs paths file_type = validate_paths_loop fs paths file_type []"

section \<open>Writing to the file system\<close>

text \<open>
  The system resolves the directory part of a path before it looks at the last
  component. \<^verbatim>\<open>os.mkdir(p)\<close> fails when the parent is missing, when the parent is not a
  directory and when something is at \<open>p\<close> already; otherwise it creates the directory.
\<close>

definition os_mkdir :: "filesystem \<Rightarrow> path \<Rightarrow> exn + filesystem" where
  "os_mkdir fs p =
     (case fs (parent p) of
        None \<Rightarrow> Inl (OSError ENOENT)
      | Some (RegularFile r bs) \<Rightarrow> Inl (OSError ENOTDIR)
      | Some Directory \<Rightarrow>
          if fs p \<noteq> None then Inl (OSError EEXIST) else Inr (fs(p \<mapsto> Directory)))"

text \<open>
  \<^verbatim>\<open>Path.mkdir(parents, exist_ok)\<close>, as pathlib writes it: try \<^verbatim>\<open>os.mkdir\<close>; on
  \<^verbatim>\<open>FileNotFoundError\<close> create the parent (with \<^verbatim>\<open>parents=True, exist_ok=True\<close>) and
  try again with \<^verbatim>\<open>parents=False\<close>; on any other \<^verbatim>\<open>OSError\<close> give up unless
  \<^verbatim>\<open>exist_ok\<close> holds and the path is a directory. When the call fails nothing has been
  created, so the caller goes on with the file system it had.
\<close>

function mkdir :: "filesystem \<Rightarrow> path \<Rightarrow> bool \<Rightarrow> bool \<Rightarrow> exn + filesystem" where
  "mkdir fs p parents exist_ok =
     (case os_mkdir fs p of
        Inr fs' \<Rightarrow> Inr fs'
      | Inl e \<Rightarrow>
          if e = OSError ENOENT then
            (if \<not> parents \<or> parent p = p then Inl e
             else (case mkdir fs (parent p) True True of
                     Inl e' \<Rightarrow> Inl e'
                   | Inr fs' \<Rightarrow> mkdir fs' p False exist_ok))
          else if \<not> exist_ok \<or> \<not> is_dir fs p then Inl e
          else Inr fs)"
  by pat_completeness auto
termination
proof (relation "measure (\<lambda>(fs, p, parents, exist_ok).
                   2 * length (parts p) + (if parents then 1 else 0))")
  show "wf (measure (\<lambda>(fs, p, parents, exist_ok).
                   2 * length (parts p) + (if parents then 1 else 0)))"
    by simp
next
  fix fs :: filesystem and p :: path and parents exist_ok :: bool and e :: exn
  assume a: "\<not> (\<not> parents \<or> parent p = p)"
  then have "parts p \<noteq> []"
    by (cases p) (auto simp: parent_def)
  then have "length (parts (parent p)) < length (parts p)"
    by (simp add: parent_def)
  with a show "((fs, parent p, True, True), (fs, p, parents, exist_ok))
      \<in> measure (\<lambda>(fs, p, parents, exist_ok).
                   2 * length (parts p) + (if parents then 1 else 0))"
    by simp
next
  fix fs fs' :: filesystem and p :: path and parents exist_ok :: bool and e :: exn
  assume "\<not> (\<not> parents \<or> parent p = p)"
  then show "((fs', p, False, exist_ok), (fs, p, parents, exist_ok))
      \<in> measure (\<lambda>(fs, p, parents, exist_ok).
                   2 * length (parts p) + (if parents then 1 else 0))"
    by simp
qed

declare mkdir.simps [simp del]

text \<open>
  \<^verbatim>\<open>open(p, 'wb')\<close>: fails on a missing parent, on a parent that is not a directory
  and on a directory; otherwise the file exists afterwards and is empty.
\<close>

definition open_wb :: "filesystem \<Rightarrow> path \<Rightarrow> exn + filesystem" where
  "open_wb fs p =
     (case fs (parent p) of
        None \<Rightarrow> Inl (OSError ENOENT)
      | Some (RegularFile r bs) \<Rightarrow> Inl (OSError ENOTDIR)
      | Some Directory \<Rightarrow>
          (case fs p of
             Some Directory \<Rightarrow> Inl (OSError EISDIR)
           | Some (RegularFile r bs) \<Rightarrow> Inr (fs(p \<mapsto> RegularFile r []))
           | None \<Rightarrow> Inr (fs(p \<mapsto> RegularFile None []))))"

text \<open>Writing bytes into a file that has been opened for writing.\<close>

definition write_bytes :: "filesystem \<Rightarrow> path \<Rightarrow> byte list \<Rightarrow> filesystem" where
  "write_bytes fs p bs =
     (case fs p of
        Some (RegularFile r old) \<Rightarrow> fs(p \<mapsto> RegularFile r bs)
      | _ \<Rightarrow> fs(p \<mapsto> RegularFile None bs))"

section \<open>The PDF library and the image library\<close>

text \<open>
  PyPDF2 and Pillow are not part of the repository: the operations take them as
  parameters. Every call may raise. A document is the list of its pages.
  \<^item> \<open>read_pages\<close>: the pages that \<^verbatim>\<open>PdfReader\<close> (and \<^verbatim>\<open>PdfMerger.append\<close>) finds in the
    bytes of a file;
  \<^item> \<open>page_rotate\<close>: \<^verbatim>\<open>page.rotate(angle)\<close>;
  \<^item> \<open>write_pages\<close>: the bytes that \<^verbatim>\<open>PdfWriter.write\<close> (and \<^verbatim>\<open>PdfMerger.write\<close>)
    produces for a document.
\<close>

record 'page pdflib =
  read_pages :: "byte list \<Rightarrow> exn + 'page list"
  page_rotate :: "'page \<Rightarrow> int \<Rightarrow> exn + 'page"
  write_pages :: "'page list \<Rightarrow> exn + byte list"

text \<open>
  \<^item> \<open>image_open\<close>: \<^verbatim>\<open>Image.open\<close> on the bytes of a file;
  \<^item> \<open>image_mode\<close>: \<^verbatim>\<open>img.mode\<close>;
  \<^item> \<open>image_convert\<close>: \<^verbatim>\<open>img.convert(mode)\<close>;
  \<^item> \<open>image_save\<close>: the bytes that
    \<^verbatim>\<open>first.save(out, "PDF", resolution=100.0, save_all=True, append_images=rest)\<close> writes.
\<close>

record 'img imglib =
  image_open :: "byte list \<Rightarrow> exn + 'img"
  image_mode :: "'img \<Rightarrow> string"
  image_convert :: "'img \<Rightarrow> string \<Rightarrow> exn + 'img"
  image_save :: "'img \<Rightarrow> 'img list \<Rightarrow> exn + byte list"

text \<open>
  \<^verbatim>\<open>PdfReader(path).pages\<close>: open the file, parse it. The libraries are given a path
  object, a string or \<^verbatim>\<open>str(path)\<close>; each of them names the file of the path.
\<close>

definition PdfReader :: "'page pdflib \<Rightarrow> filesystem \<Rightarrow> path \<Rightarrow> exn + 'page list" where
  "PdfReader lib fs p =
     (case open_rb fs p of Inl e \<Rightarrow> Inl e | Inr bs \<Rightarrow> read_pages lib bs)"

text \<open>
  Open a file for writing, then let the library write into it: \<open>produced\<close> is what
  the library's writing call yields, its bytes or the exception it raises. The file
  stays behind, empty, when the library raises.
\<close>

definition write_file ::
  "filesystem \<Rightarrow> path \<Rightarrow> exn + byte list \<Rightarrow> (exn + unit) \<times> filesystem" where
  "write_file fs p produced =
     (case open_wb fs p of
        Inl e \<Rightarrow> (Inl e, fs)
      | Inr fs1 \<Rightarrow>
          (case produced of
             Inl e \<Rightarrow> (Inl e, fs1)
           | Inr bs \<Rightarrow> (Inr (), write_bytes fs1 p bs)))"

text \<open>\<^verbatim>\<open>with open(p, "wb") as f: writer.write(f)\<close>, and \<^verbatim>\<open>merger.write(str(p))\<close>.\<close>

definition write_document ::
  "'page pdflib \<Rightarrow> filesystem \<Rightarrow> path \<Rightarrow> 'page list \<Rightarrow> (exn + unit) \<times> filesystem" where
  "write_document lib fs p pages = write_file fs p (write_pages lib pages)"

text \<open>
  \<^verbatim>\<open>first.save(str(p), "PDF", resolution=100.0, save_all=True, append_images=rest)\<close>.
\<close>

definition save_images ::
  "'img imglib \<Rightarrow> filesystem \<Rightarrow> path \<Rightarrow> 'img \<Rightarrow> 'img list \<Rightarrow> (exn + unit) \<times> filesystem" where
  "save_images lib fs p first_image rest_images =
     write_file fs p (image_save lib first_image rest_images)"

section \<open>actions.py\<close>

text \<open>
  An operation returns its result, or the exception it raises, together with the file
  system it leaves behind. The two handlers of the operations:
  \<^verbatim>\<open>except FileValidationError as e: raise PDFActionError(f"Validation failed: {e}")\<close>
  around the validation, and
  \<^verbatim>\<open>except Exception as e: raise PDFActionError(f"<prefix>{e}")\<close> around the work.
\<close>

definition except_FileValidationError :: "exn + 'a \<Rightarrow> exn + 'a" where
  "except_FileValidationError r =
     (case r of
        Inl (FileValidationError m) \<Rightarrow>
          Inl (PDFActionError (''Validation failed: '' @ str_exn (FileValidationError m)))
      | _ \<Rightarrow> r)"

definition except_Exception ::
  "string \<Rightarrow> (exn + 'a) \<times> filesystem \<Rightarrow> (exn + 'a) \<times> filesystem" where
  "except_Exception prefix r =
     (case r of
        (Inl e, fs) \<Rightarrow> (Inl (PDFActionError (prefix @ str_exn e)), fs)
      | (Inr v, fs) \<Rightarrow> (Inr v, fs))"

subsection \<open>merge_pdfs\<close>

text \<open>The loop \<^verbatim>\<open>for path in validated_paths: merger.append(str(path))\<close>.\<close>

fun merger_append ::
  "'page pdflib \<Rightarrow> filesystem \<Rightarrow> path list \<Rightarrow> 'page list \<Rightarrow> exn + 'page list" where
  "merger_append lib fs [] merger = Inr merger"
| "merger_append lib fs (path # paths) merger =
     (case PdfReader lib fs path of
        Inl e \<Rightarrow> Inl e
      | Inr pages \<Rightarrow> merger_append lib fs paths (merger @ pages))"

definition merge_try ::
  "'page pdflib \<Rightarrow> filesystem \<Rightarrow> path list \<Rightarrow> path_like \<Rightarrow> (exn + path) \<times> filesystem" where
  "merge_try lib fs validated_paths output_path =
     (case merger_append lib fs validated_paths [] of
        Inl e \<Rightarrow> (Inl e, fs)
      | Inr merger \<Rightarrow>
          (let output_path' = Path output_path in
           case mkdir fs (parent output_path') True True of
             Inl e \<Rightarrow> (Inl e, fs)
           | Inr fs1 \<Rightarrow>
               (case write_document lib fs1 output_path' merger of
                  (Inl e, fs2) \<Rightarrow> (Inl e, fs2)
                | (Inr _, fs2) \<Rightarrow> (Inr output_path', fs2))))"

definition merge_pdfs ::
  "'page pdflib \<Rightarrow> filesystem \<Rightarrow> path_like list \<Rightarrow> path_like \<Rightarrow> (exn + path) \<times> filesystem" where
  "merge_pdfs lib fs file_paths output_path =
     (case except_FileValidationError (validate_paths fs file_paths ''pdf'') of
        Inl e \<Rightarrow> (Inl e, fs)
      | Inr validated_paths \<Rightarrow>
          except_Exception ''Failed to merge PDFs: ''
            (merge_try lib fs validated_paths output_path))"

subsection \<open>convert_images_to_pdf\<close>

text \<open>The loop that opens each image and converts it to RGB when its mode is another.\<close>

fun open_images ::
  "'img imglib \<Rightarrow> filesystem \<Rightarrow> path list \<Rightarrow> 'img list \<Rightarrow> exn + 'img list" where
  "open_images lib fs [] images = Inr images"
| "open_images lib fs (path # paths) images =
     (case open_rb fs path of
        Inl e \<Rightarrow> Inl e
      | Inr bs \<Rightarrow>
          (case image_open lib bs of
             Inl e \<Rightarrow> Inl e
           | Inr img \<Rightarrow>
               (case (if image_mode lib img \<noteq> ''RGB'' then image_convert lib img ''RGB''
                      else Inr img) of
                  Inl e \<Rightarrow> Inl e
                | Inr img' \<Rightarrow> open_images lib fs paths (images @ [img']))))"

definition convert_try ::
  "'img imglib \<Rightarrow> filesystem \<Rightarrow> path list \<Rightarrow> path_like \<Rightarrow> (exn + path) \<times> filesystem" where
  "convert_try lib fs validated_paths output_path =
     (case open_images lib fs validated_paths [] of
        Inl e \<Rightarrow> (Inl e, fs)
      | Inr [] \<Rightarrow> (Inl (Exception ''IndexError''), fs)
      | Inr (first_image # rest_images) \<Rightarrow>
          (let output_path' = Path output_path in
           case mkdir fs (parent output_path') True True of
             Inl e \<Rightarrow> (Inl e, fs)
           | Inr fs1 \<Rightarrow>
               (case save_images lib fs1 output_path' first_image rest_images of
                  (Inl e, fs2) \<Rightarrow> (Inl e, fs2)
                | (Inr _, fs2) \<Rightarrow> (Inr output_path', fs2))))"

definition convert_images_to_pdf ::
  "'img imglib \<Rightarrow> filesystem \<Rightarrow> path_like list \<Rightarrow> path_like \<Rightarrow> (exn + path) \<times> filesystem" where
  "convert_images_to_pdf lib fs image_paths output_path =
     (case except_FileValidationError (validate_paths fs image_paths ''image'') of
        Inl e \<Rightarrow> (Inl e, fs)
      | Inr validated_paths \<Rightarrow>
          if validated_paths = [] then
            (Inl (PDFActionError ''No valid images provided.''), fs)
          else
            except_Exception ''Failed to convert images to PDF: ''
              (convert_try lib fs validated_paths output_path))"

subsection \<open>split_pdf\<close>

text \<open>
  The loop \<^verbatim>\<open>for i, page in enumerate(reader.pages)\<close>: \<open>i\<close> is the index of the next
  page, \<open>generated_files\<close> the paths written so far.
\<close>

fun split_loop ::
  "'page pdflib \<Rightarrow> filesystem \<Rightarrow> path \<Rightarrow> string \<Rightarrow> nat \<Rightarrow> 'page list \<Rightarrow> path list \<Rightarrow>
   (exn + path list) \<times> filesystem" where
  "split_loop lib fs out_dir base_name i [] generated_files = (Inr generated_files, fs)"
| "split_loop lib fs out_dir base_name i (page # pages) generated_files =
     (let out_filename =
            joinpath out_dir (base_name @ ''_page_'' @ str_nat (i + 1) @ ''.pdf'')
      in case write_document lib fs out_filename [page] of
           (Inl e, fs') \<Rightarrow> (Inl e, fs')
         | (Inr _, fs') \<Rightarrow>
             split_loop lib fs' out_dir base_name (i + 1) pages
               (generated_files @ [out_filename]))"

definition split_try ::
  "'page pdflib \<Rightarrow> filesystem \<Rightarrow> path \<Rightarrow> path \<Rightarrow> (exn + path list) \<times> filesystem" where
  "split_try lib fs src_path out_dir =
     (case PdfReader lib fs src_path of
        Inl e \<Rightarrow> (Inl e, fs)
      | Inr pages \<Rightarrow> split_loop lib fs out_dir (stem src_path) 0 pages [])"

text \<open>
  \<^verbatim>\<open>out_dir.mkdir(parents=True, exist_ok=True)\<close> stands between the two \<^verbatim>\<open>try\<close>
  blocks of \<^verbatim>\<open>split_pdf\<close>: an exception it raises is not caught.
\<close>

definition split_pdf ::
  "'page pdflib \<Rightarrow> filesystem \<Rightarrow> path_like \<Rightarrow> path_like \<Rightarrow>
   (exn + path list) \<times> filesystem" where
  "split_pdf lib fs file_path output_dir =
     (case except_FileValidationError (validate_pdf fs file_path) of
        Inl e \<Rightarrow> (Inl e, fs)
      | Inr _ \<Rightarrow>
          (let src_path = Path file_path; out_dir = Path output_dir in
           case mkdir fs out_dir True True of
             Inl e \<Rightarrow> (Inl e, fs)
           | Inr fs1 \<Rightarrow>
               except_Exception ''Failed to split PDF: ''
                 (split_try lib fs1 src_path out_dir)))"

subsection \<open>rotate_pdf\<close>

text \<open>
  The loop \<^verbatim>\<open>for page in reader.pages: page.rotate(rotation); writer.add_page(page)\<close>,
  with the pages of \<open>writer\<close> as an accumulator.
\<close>

fun rotate_loop ::
  "'page pdflib \<Rightarrow> int \<Rightarrow> 'page list \<Rightarrow> 'page list \<Rightarrow> exn + 'page list" where
  "rotate_loop lib rotation [] writer = Inr writer"
| "rotate_loop lib rotation (page # pages) writer =
     (case page_rotate lib page rotation of
        Inl e \<Rightarrow> Inl e
      | Inr page' \<Rightarrow> rotate_loop lib rotation pages (writer @ [page']))"

definition rotate_try ::
  "'page pdflib \<Rightarrow> filesystem \<Rightarrow> path_like \<Rightarrow> path_like \<Rightarrow> int \<Rightarrow>
   (exn + path) \<times> filesystem" where
  "rotate_try lib fs file_path output_path rotation =
     (case PdfReader lib fs (Path file_path) of
        Inl e \<Rightarrow> (Inl e, fs)
      | Inr pages \<Rightarrow>
          (case rotate_loop lib rotation pages [] of
             Inl e \<Rightarrow> (Inl e, fs)
           | Inr writer \<Rightarrow>
               (let output_path' = Path output_path in
                case write_document lib fs output_path' writer of
                  (Inl e, fs') \<Rightarrow> (Inl e, fs')
                | (Inr _, fs') \<Rightarrow> (Inr output_path', fs'))))"

definition rotate_pdf ::
  "'page pdflib \<Rightarrow> filesystem \<Rightarrow> path_like \<Rightarrow> path_like \<Rightarrow> int \<Rightarrow>
   (exn + path) \<times> filesystem" where
  "rotate_pdf lib fs file_path output_path rotation =
     (case except_FileValidationError (validate_pdf fs file_path) of
        Inl e \<Rightarrow> (Inl e, fs)
      | Inr _ \<Rightarrow>
          except_Exception ''Failed to rotate PDF: ''
            (rotate_try lib fs file_path output_path rotation))"

section \<open>Example data\<close>

text \<open>
  A small PDF library and a small image library for the examples. A document is
  \<^verbatim>\<open>%PDF\<close> followed by two bytes for each page, its content and its rotation; any
  angle can be added to the rotation of a page. An image is its mode and its bytes;
  a PNG file opens in mode \<^verbatim>\<open>RGBA\<close>, any other file in mode \<^verbatim>\<open>RGB\<close>.
\<close>

fun example_pages :: "byte list \<Rightarrow> (byte \<times> int) list" where
  "example_pages (c # r # rest) = (c, uint r) # example_pages rest"
| "example_pages rest = []"

definition example_pdflib :: "(byte \<times> int) pdflib" where
  "example_pdflib =
     \<lparr>read_pages = (\<lambda>bs. if startswith bs pdf_magic then Inr (example_pages (drop 4 bs))
                          else Inl (Exception ''not a PDF document'')),
      page_rotate = (\<lambda>page angle. Inr (fst page, snd page + angle)),
      write_pages = (\<lambda>pages. Inr (pdf_magic @
                       concat (map (\<lambda>page. [fst page, word_of_int (snd page)]) pages)))\<rparr>"

text \<open>
  The same PDF library with a page rotation that accepts multiples of 90 only, the
  angles that the docstring of \<^verbatim>\<open>rotate_pdf\<close> names, and raises on any other angle.
\<close>

definition strict_pdflib :: "(byte \<times> int) pdflib" where
  "strict_pdflib =
     example_pdflib\<lparr>page_rotate :=
       (\<lambda>page angle.
          if angle mod 90 \<noteq> 0 then Inl (Exception ''Rotation angle must be a multiple of 90'')
          else Inr (fst page, snd page + angle))\<rparr>"

definition example_imglib :: "(string \<times> byte list) imglib" where
  "example_imglib =
     \<lparr>image_open = (\<lambda>bs. Inr (if startswith bs png_magic then ''RGBA'' else ''RGB'', bs)),
      image_mode = fst,
      image_convert = (\<lambda>img mode. Inr (mode, snd img)),
      image_save = (\<lambda>first_image rest_images.
                      Inr (pdf_magic @ concat (map snd (first_image # rest_images))))\<rparr>"

text \<open>
  A file system with the working directory, a PDF document of two pages, a PNG image,
  and two files whose content does not match their extension.
\<close>

definition example_fs :: filesystem where
  "example_fs =
     [PurePath False [] \<mapsto> Directory,
      PurePath False [''doc.pdf''] \<mapsto> RegularFile None (pdf_magic @ [0x41, 0, 0x42, 0]),
      PurePath False [''fake.pdf''] \<mapsto>
        RegularFile None [0x4E, 0x4F, 0x54, 0x5F, 0x41, 0x5F, 0x50, 0x44, 0x46],
      PurePath False [''scan.png''] \<mapsto> RegularFile None (png_magic @ [1, 2, 3]),
      PurePath False [''fake.png''] \<mapsto> RegularFile None [0x42, 0x41, 0x44]]"

section \<open>Properties of the validators\<close>

lemma MAGIC_NUMBERS_pdf: "MAGIC_NUMBERS ''pdf'' = Some pdf_magic"
  by (simp add: MAGIC_NUMBERS_def)
lemma MAGIC_NUMBERS_png: "MAGIC_NUMBERS ''png'' = Some png_magic"
  by (simp add: MAGIC_NUMBERS_def)
lemma MAGIC_NUMBERS_jpg: "MAGIC_NUMBERS ''jpg'' = Some jpeg_magic"
  by (simp add: MAGIC_NUMBERS_def)
lemma MAGIC_NUMBERS_jpeg: "MAGIC_NUMBERS ''jpeg'' = Some jpeg_magic"
  by (simp add: MAGIC_NUMBERS_def)

lemma length_pdf_magic: "length pdf_magic = 4"
  by (simp add: pdf_magic_def)
lemma length_png_magic: "length png_magic = 8"
  by (simp add: png_magic_def)
lemma length_jpeg_magic: "length jpeg_magic = 3"
  by (simp add: jpeg_magic_def)

lemma startswith_take: "length p = n \<Longrightarrow> startswith (take n s) p = (take n s = p)"
  by (auto simp: startswith_def)

lemma startswith_self: "startswith p p"
  by (simp add: startswith_def)

lemma validate_file_regular:
  "fs (Path file_path) = Some (RegularFile r bs) \<Longrightarrow> validate_file fs file_path = Inr True"
  by (simp add: validate_file_def exists_def is_file_def)

lemma validate_file_Inr:
  "validate_file fs file_path = Inr v \<Longrightarrow> \<exists>r bs. fs (Path file_path) = Some (RegularFile r bs)"
  by (auto simp: validate_file_def exists_def is_file_def Let_def split: if_splits option.splits node.splits)

lemma validate_file_result:
  "validate_file fs file_path = Inr True \<or>
   (\<exists>m. validate_file fs file_path = Inl (FileValidationError m))"
  by (simp add: validate_file_def Let_def)

lemma read_header_regular:
  "fs p = Some (RegularFile r bs) \<Longrightarrow>
   read_header fs p k = (case r of None \<Rightarrow> Inr (take k bs) | Some n \<Rightarrow> Inl (OSError n))"
  by (simp add: read_header_def open_rb_def split: option.splits)

lemma validate_pdf_regular:
  assumes "fs (Path file_path) = Some (RegularFile r bs)"
  shows "validate_pdf fs file_path =
           (case r of
              Some n \<Rightarrow>
                Inl (FileValidationError
                       (''Error reading file '' @ str file_path @ '': '' @ strerror n))
            | None \<Rightarrow>
                if take 4 bs = pdf_magic then Inr True
                else Inl (FileValidationError (''Invalid PDF file header: '' @ str file_path)))"
  using validate_file_regular [of fs file_path r bs, OF assms]
    read_header_regular [of fs "Path file_path" r bs 4, OF assms]
  by (simp add: validate_pdf_def MAGIC_NUMBERS_pdf startswith_take [OF length_pdf_magic] startswith_self
      split: option.splits)

lemma validate_pdf_result:
  "validate_pdf fs file_path = Inr True \<or>
   (\<exists>m. validate_pdf fs file_path = Inl (FileValidationError m))"
proof (cases "validate_file fs file_path")
  case (Inl e)
  with validate_file_result [of fs file_path] show ?thesis
    by (auto simp: validate_pdf_def)
next
  case (Inr v)
  then obtain r bs where "fs (Path file_path) = Some (RegularFile r bs)"
    using validate_file_Inr by blast
  then show ?thesis
    by (simp add: validate_pdf_regular split: option.splits)
qed


lemma validate_image_png:
  assumes "fs (Path file_path) = Some (RegularFile r bs)"
    and "lstrip_dot (lower (suffix (Path file_path))) = ''png''"
  shows "validate_image fs file_path =
           (case r of
              Some n \<Rightarrow>
                Inl (FileValidationError
                       (''Error reading file '' @ str file_path @ '': '' @ strerror n))
            | None \<Rightarrow>
                if take 8 bs = png_magic then Inr True
                else Inl (FileValidationError
                        (''Invalid '' @ upper ''png'' @ '' file header: '' @ str file_path)))"
proof -
  have "png_magic \<noteq> []"
    by (simp add: png_magic_def)
  then show ?thesis
    using validate_file_regular [of fs file_path r bs, OF assms(1)]
      read_header_regular [of fs "Path file_path" r bs 8, OF assms(1)] assms(2)
    by (simp add: validate_image_def MAGIC_NUMBERS_png length_png_magic
        startswith_take [OF length_png_magic] startswith_self split: option.splits)
qed

lemma validate_image_jpeg:
  assumes "fs (Path file_path) = Some (RegularFile r bs)"
    and "lstrip_dot (lower (suffix (Path file_path))) = ext"
    and "ext = ''jpg'' \<or> ext = ''jpeg''"
  shows "validate_image fs file_path =
           (case r of
              Some n \<Rightarrow>
                Inl (FileValidationError
                       (''Error reading file '' @ str file_path @ '': '' @ strerror n))
            | None \<Rightarrow>
                if take 3 bs = jpeg_magic then Inr True
                else Inl (FileValidationError
                        (''Invalid '' @ upper ext @ '' file header: '' @ str file_path)))"
proof -
  have ne: "jpeg_magic \<noteq> []"
    by (simp add: jpeg_magic_def)
  have m: "MAGIC_NUMBERS ext = Some jpeg_magic"
    using assms(3) MAGIC_NUMBERS_jpg MAGIC_NUMBERS_jpeg by auto
  have e: "ext \<in> set [''png'', ''jpg'', ''jpeg'']"
    using assms(3) by auto
  show ?thesis
    using validate_file_regular [of fs file_path r bs, OF assms(1)]
      read_header_regular [of fs "Path file_path" r bs 3, OF assms(1)] assms(2) ne m e
    by (simp add: validate_image_def length_jpeg_magic
        startswith_take [OF length_jpeg_magic] startswith_self del: set_simps split: option.splits)
qed

lemma validate_image_unsupported:
  assumes "validate_file fs file_path = Inr v"
    and "lstrip_dot (lower (suffix (Path file_path))) = ext"
    and "ext \<noteq> ''png''" and "ext \<noteq> ''jpg''" and "ext \<noteq> ''jpeg''"
  shows "validate_image fs file_path =
           Inl (FileValidationError (''Unsupported image extension: '' @ ext))"
  using assms by (simp add: validate_image_def)

lemma validate_image_result:
  "validate_image fs file_path = Inr True \<or>
   (\<exists>m. validate_image fs file_path = Inl (FileValidationError m))"
proof (cases "validate_file fs file_path")
  case (Inl e)
  with validate_file_result [of fs file_path] show ?thesis
    by (auto simp: validate_image_def)
next
  case (Inr v)
  then obtain r bs where f: "fs (Path file_path) = Some (RegularFile r bs)"
    using validate_file_Inr by blast
  define ext where "ext = lstrip_dot (lower (suffix (Path file_path)))"
  consider "ext = ''png''" | "ext = ''jpg'' \<or> ext = ''jpeg''"
    | "ext \<noteq> ''png''" "ext \<noteq> ''jpg''" "ext \<noteq> ''jpeg''"
    by blast
  then show ?thesis
  proof cases
    case 1
    then show ?thesis
      using validate_image_png [of fs file_path r bs, OF f]
      by (simp add: ext_def split: option.splits)
  next
    case 2
    then show ?thesis
      using validate_image_jpeg [of fs file_path r bs ext, OF f]
      by (simp add: ext_def split: option.splits)
  next
    case 3
    then show ?thesis
      using validate_image_unsupported [of fs file_path v ext, OF Inr] by (simp add: ext_def)
  qed
qed


lemma validate_one_result:
  "validate_one fs file_type p = Inr True \<or>
   (\<exists>m. validate_one fs file_type p = Inl (FileValidationError m))"
  using validate_pdf_result [of fs "PathObj p"] validate_image_result [of fs "PathObj p"]
  by (simp add: validate_one_def)

lemma validate_paths_loop_pass:
  assumes "\<forall>p \<in> set ps. validate_one fs file_type (Path p) = Inr True"
  shows "validate_paths_loop fs ps file_type acc = Inr (acc @ map Path ps)"
  using assms
proof (induction ps arbitrary: acc)
  case Nil
  then show ?case by simp
next
  case (Cons p ps)
  then show ?case
    by (simp add: Let_def)
qed

lemma validate_paths_loop_fail:
  assumes "\<forall>q \<in> set xs. validate_one fs file_type (Path q) = Inr True"
    and "validate_one fs file_type (Path p) = Inl e"
  shows "validate_paths_loop fs (xs @ p # ys) file_type acc = Inl e"
  using assms
proof (induction xs arbitrary: acc)
  case Nil
  then show ?case by (simp add: Let_def)
next
  case (Cons x xs)
  then show ?case
    by (simp add: Let_def)
qed

lemma validate_paths_loop_error:
  "validate_paths_loop fs ps file_type acc = Inl e \<Longrightarrow> \<exists>m. e = FileValidationError m"
proof (induction ps arbitrary: acc)
  case Nil
  then show ?case by simp
next
  case (Cons p ps)
  from validate_one_result [of fs file_type "Path p"] show ?case
  proof
    assume "validate_one fs file_type (Path p) = Inr True"
    with Cons show ?thesis
      by (simp add: Let_def)
  next
    assume "\<exists>m. validate_one fs file_type (Path p) = Inl (FileValidationError m)"
    with Cons.prems show ?thesis
      by (auto simp: Let_def)
  qed
qed

lemma validate_paths_loop_Inr:
  "validate_paths_loop fs ps file_type acc = Inr vs \<Longrightarrow> vs = acc @ map Path ps"
proof (induction ps arbitrary: acc)
  case Nil
  then show ?case by simp
next
  case (Cons p ps)
  from Cons.prems have "validate_paths_loop fs ps file_type (acc @ [Path p]) = Inr vs"
    by (cases "validate_one fs file_type (Path p)") (auto simp: Let_def)
  from Cons.IH [OF this] show ?case
    by simp
qed

lemma validate_paths_loop_other:
  assumes "file_type \<noteq> ''pdf''" and "file_type \<noteq> ''image''"
  shows "validate_paths_loop fs ps file_type acc = Inr (acc @ map Path ps)"
  by (rule validate_paths_loop_pass) (simp add: validate_one_def assms)






text \<open>
  Claim C10. \<^verbatim>\<open>validate_file\<close>, \<^verbatim>\<open>validate_pdf\<close> and \<^verbatim>\<open>validate_image\<close> never return
  \<open>False\<close>: on every file system and every path each of them returns \<open>True\<close> or raises
  \<^verbatim>\<open>FileValidationError\<close>.
\<close>

theorem validators_never_return_False:
  "(validate_file fs file_path = Inr True \<or>
      (\<exists>m. validate_file fs file_path = Inl (FileValidationError m))) \<and>
   (validate_pdf fs file_path = Inr True \<or>
      (\<exists>m. validate_pdf fs file_path = Inl (FileValidationError m))) \<and>
   (validate_image fs file_path = Inr True \<or>
      (\<exists>m. validate_image fs file_path = Inl (FileValidationError m)))"
  using validate_file_result validate_pdf_result validate_image_result by blast

text \<open>On a path that does not exist none of the three returns \<open>False\<close>.\<close>

theorem validators_never_return_False_witness:
  "validate_file Map.empty (Str ''missing.pdf'') \<noteq> Inr False \<and>
   validate_pdf Map.empty (Str ''missing.pdf'') \<noteq> Inr False \<and>
   validate_image Map.empty (Str ''missing.pdf'') \<noteq> Inr False"
  using validators_never_return_False [of Map.empty "Str ''missing.pdf''"]
  by auto

text \<open>
  Claim C7. For the kinds \<^verbatim>\<open>pdf\<close> and \<^verbatim>\<open>image\<close>, \<^verbatim>\<open>validate_paths\<close> applies
  \<^verbatim>\<open>validate_pdf\<close>, respectively \<^verbatim>\<open>validate_image\<close>, to the paths in input order: when
  every path passes, it returns all of them as path objects in the input order; when
  the paths before \<open>p\<close> pass and \<open>p\<close> fails, it raises the exception of \<open>p\<close>, whatever
  the later paths \<open>ys\<close> are.
\<close>

theorem validate_paths_in_order:
  "((\<forall>q \<in> set paths. validate_pdf fs (PathObj (Path q)) = Inr True) \<longrightarrow>
      validate_paths fs paths ''pdf'' = Inr (map Path paths)) \<and>
   ((\<forall>q \<in> set xs. validate_pdf fs (PathObj (Path q)) = Inr True) \<and>
    validate_pdf fs (PathObj (Path p)) = Inl e \<longrightarrow>
      validate_paths fs (xs @ p # ys) ''pdf'' = Inl e) \<and>
   ((\<forall>q \<in> set paths. validate_image fs (PathObj (Path q)) = Inr True) \<longrightarrow>
      validate_paths fs paths ''image'' = Inr (map Path paths)) \<and>
   ((\<forall>q \<in> set xs. validate_image fs (PathObj (Path q)) = Inr True) \<and>
    validate_image fs (PathObj (Path p)) = Inl e \<longrightarrow>
      validate_paths fs (xs @ p # ys) ''image'' = Inl e)"
proof -
  have pdf: "validate_one fs ''pdf'' q = validate_pdf fs (PathObj q)" for q
    by (simp add: validate_one_def)
  have image: "validate_one fs ''image'' q = validate_image fs (PathObj q)" for q
    by (simp add: validate_one_def)
  show ?thesis
    using validate_paths_loop_pass [of paths fs "''pdf''" "[]"]
      validate_paths_loop_fail [of xs fs "''pdf''" p e ys "[]"]
      validate_paths_loop_pass [of paths fs "''image''" "[]"]
      validate_paths_loop_fail [of xs fs "''image''" p e ys "[]"]
    by (simp add: validate_paths_def pdf image)
qed

text \<open>
  Two valid files, given in the order \<^verbatim>\<open>b.pdf\<close>, \<^verbatim>\<open>./a.pdf\<close>; then a list whose second
  path is missing.
\<close>

theorem validate_paths_in_order_witness:
  "validate_paths
     [PurePath False [''a.pdf''] \<mapsto> RegularFile None [0x25, 0x50, 0x44, 0x46],
      PurePath False [''b.pdf''] \<mapsto> RegularFile None [0x25, 0x50, 0x44, 0x46]]
     [Str ''b.pdf'', Str ''./a.pdf''] ''pdf'' =
     Inr [PurePath False [''b.pdf''], PurePath False [''a.pdf'']] \<and>
   validate_paths
     [PurePath False [''a.pdf''] \<mapsto> RegularFile None [0x25, 0x50, 0x44, 0x46],
      PurePath False [''b.pdf''] \<mapsto> RegularFile None [0x25, 0x50, 0x44, 0x46]]
     ([Str ''b.pdf''] @ Str ''x.pdf'' # [Str ''y.pdf'']) ''pdf'' =
     Inl (FileValidationError ''File not found: x.pdf'')"
proof -
  let ?fs = "[PurePath False [''a.pdf''] \<mapsto> RegularFile None [0x25, 0x50, 0x44, 0x46],
      PurePath False [''b.pdf''] \<mapsto> RegularFile None [0x25, 0x50, 0x44, 0x46 :: byte]]"
  have a: "validate_pdf ?fs (PathObj (Path (Str ''./a.pdf''))) = Inr True"
    by code_simp
  have b: "validate_pdf ?fs (PathObj (Path (Str ''b.pdf''))) = Inr True"
    by code_simp
  have x: "validate_pdf ?fs (PathObj (Path (Str ''x.pdf''))) =
      Inl (FileValidationError ''File not found: x.pdf'')"
    by code_simp
  have p: "map Path [Str ''b.pdf'', Str ''./a.pdf''] =
      [PurePath False [''b.pdf''], PurePath False [''a.pdf'']]"
    by code_simp
  show ?thesis
    using validate_paths_in_order [of "[Str ''b.pdf'', Str ''./a.pdf'']" ?fs
        "[Str ''b.pdf'']" "Str ''x.pdf''" "FileValidationError ''File not found: x.pdf''"
        "[Str ''y.pdf'']"] a b x p
    by simp
qed

text \<open>
  Claim C9. With a \<^verbatim>\<open>file_type\<close> other than \<^verbatim>\<open>'pdf'\<close> and \<^verbatim>\<open>'image'\<close>,
  \<^verbatim>\<open>validate_paths\<close> validates nothing: on every file system it returns every path as
  a path object, without raising, also for paths that do not exist.
\<close>

theorem validate_paths_unknown_file_type:
  assumes "file_type \<noteq> ''pdf''" and "file_type \<noteq> ''image''"
  shows "validate_paths fs paths file_type = Inr (map Path paths)"
  using validate_paths_loop_other [of file_type fs paths "[]", OF assms]
  by (simp add: validate_paths_def)

text \<open>The misspelt kind \<^verbatim>\<open>pdfs\<close> on an empty file system.\<close>

theorem validate_paths_unknown_file_type_witness:
  "validate_paths Map.empty [Str ''missing.pdf'', Str ''dir/notes.txt''] ''pdfs'' =
     Inr [PurePath False [''missing.pdf''], PurePath False [''dir'', ''notes.txt'']]"
proof -
  have p: "map Path [Str ''missing.pdf'', Str ''dir/notes.txt''] =
      [PurePath False [''missing.pdf''], PurePath False [''dir'', ''notes.txt'']]"
    by code_simp
  show ?thesis
    using validate_paths_unknown_file_type [of "''pdfs''" Map.empty
        "[Str ''missing.pdf'', Str ''dir/notes.txt'']"] p
    by simp
qed

section \<open>Properties of the file system operations\<close>

lemma os_mkdir_error: "os_mkdir fs p = Inl e \<Longrightarrow> \<exists>n. e = OSError n"
  by (auto simp: os_mkdir_def split: option.splits node.splits if_splits)

lemma os_mkdir_Inr: "os_mkdir fs p = Inr fs' \<Longrightarrow> fs p = None \<and> fs' = fs(p \<mapsto> Directory)"
  by (auto simp: os_mkdir_def split: option.splits node.splits if_splits)

lemma mkdir_error: "mkdir fs p parents exist_ok = Inl e \<Longrightarrow> \<exists>n. e = OSError n"
proof (induction fs p parents exist_ok rule: mkdir.induct)
  case (1 fs p parents exist_ok)
  show ?case
  proof (cases "os_mkdir fs p")
    case (Inr fs')
    with "1.prems" show ?thesis
      by (subst (asm) mkdir.simps) simp
  next
    case (Inl x)
    note os = this
    then obtain n where x: "x = OSError n"
      using os_mkdir_error by blast
    show ?thesis
    proof (cases "x = OSError ENOENT \<and> \<not> (\<not> parents \<or> parent p = p)")
      case False
      with "1.prems" os x show ?thesis
        by (subst (asm) mkdir.simps) (auto split: if_splits)
    next
      case True
      show ?thesis
      proof (cases "mkdir fs (parent p) True True")
        case (Inl e')
        with "1.prems" os True have "e = e'"
          by (subst (asm) mkdir.simps) simp
        with "1.IH"(1) [of x, OF os] True Inl show ?thesis
          by simp
      next
        case (Inr fs')
        with "1.prems" os True have "mkdir fs' p False exist_ok = Inl e"
          by (subst (asm) mkdir.simps) simp
        with "1.IH"(2) [of x fs', OF os] True Inr show ?thesis
          by simp
      qed
    qed
  qed
qed

lemma mkdir_Inr:
  "mkdir fs p parents exist_ok = Inr fs' \<Longrightarrow>
     fs' p = Some Directory \<and> (\<forall>q n. fs q = Some n \<longrightarrow> fs' q = Some n)"
proof (induction fs p parents exist_ok arbitrary: fs' rule: mkdir.induct)
  case (1 fs p parents exist_ok)
  show ?case
  proof (cases "os_mkdir fs p")
    case (Inr fs1)
    with "1.prems" have "fs' = fs1"
      by (subst (asm) mkdir.simps) simp
    with os_mkdir_Inr [OF Inr] show ?thesis
      by auto
  next
    case (Inl x)
    note os = this
    show ?thesis
    proof (cases "x = OSError ENOENT \<and> \<not> (\<not> parents \<or> parent p = p)")
      case False
      with "1.prems" os have "fs' = fs \<and> is_dir fs p"
        by (subst (asm) mkdir.simps) (auto split: if_splits)
      then show ?thesis
        by (auto simp: is_dir_def split: option.splits node.splits)
    next
      case True
      show ?thesis
      proof (cases "mkdir fs (parent p) True True")
        case (Inl e')
        with "1.prems" os True show ?thesis
          by (subst (asm) mkdir.simps) simp
      next
        case (Inr fs1)
        with "1.prems" os True have m: "mkdir fs1 p False exist_ok = Inr fs'"
          by (subst (asm) mkdir.simps) simp
        from "1.IH"(1) [of x fs1, OF os] True Inr
        have a: "\<forall>q n. fs q = Some n \<longrightarrow> fs1 q = Some n"
          by simp
        from "1.IH"(2) [of x fs1 fs', OF os] True Inr m
        have b: "fs' p = Some Directory \<and> (\<forall>q n. fs1 q = Some n \<longrightarrow> fs' q = Some n)"
          by simp
        from a b show ?thesis
          by blast
      qed
    qed
  qed
qed

lemma mkdir_frame:
  "mkdir fs p parents exist_ok = Inr fs' \<Longrightarrow> length (parts p) < length (parts q) \<Longrightarrow>
     fs' q = fs q"
proof (induction fs p parents exist_ok arbitrary: fs' rule: mkdir.induct)
  case (1 fs p parents exist_ok)
  show ?case
  proof (cases "os_mkdir fs p")
    case (Inr fs1)
    with "1.prems" have "fs' = fs1"
      by (subst (asm) mkdir.simps) simp
    with os_mkdir_Inr [OF Inr] "1.prems"(2) show ?thesis
      by auto
  next
    case (Inl x)
    note os = this
    show ?thesis
    proof (cases "x = OSError ENOENT \<and> \<not> (\<not> parents \<or> parent p = p)")
      case False
      with "1.prems" os have "fs' = fs"
        by (subst (asm) mkdir.simps) (auto split: if_splits)
      then show ?thesis
        by simp
    next
      case True
      have len: "length (parts (parent p)) < length (parts q)"
        using "1.prems"(2) by (simp add: parent_def)
      show ?thesis
      proof (cases "mkdir fs (parent p) True True")
        case (Inl e')
        with "1.prems" os True show ?thesis
          by (subst (asm) mkdir.simps) simp
      next
        case (Inr fs1)
        with "1.prems" os True have m: "mkdir fs1 p False exist_ok = Inr fs'"
          by (subst (asm) mkdir.simps) simp
        from "1.IH"(1) [of x fs1, OF os] True Inr len have a: "fs1 q = fs q"
          by simp
        from "1.IH"(2) [of x fs1 fs', OF os] True Inr m "1.prems"(2) have b: "fs' q = fs1 q"
          by simp
        from a b show ?thesis
          by simp
      qed
    qed
  qed
qed

lemma parent_joinpath: "parent (joinpath d n) = d"
  by (cases d) (simp add: parent_def joinpath_def)

lemma joinpath_neq: "joinpath d n \<noteq> d"
  by (cases d) (simp add: joinpath_def)

lemma length_parts_joinpath: "length (parts d) < length (parts (joinpath d n))"
  by (simp add: joinpath_def)

lemma write_file_ok:
  assumes "fs (parent p) = Some Directory" and "fs p \<noteq> Some Directory"
  shows "\<exists>r. write_file fs p (Inr bs) = (Inr (), fs(p \<mapsto> RegularFile r bs))"
proof (cases "fs p")
  case None
  with assms have "write_file fs p (Inr bs) = (Inr (), fs(p \<mapsto> RegularFile None bs))"
    by (simp add: write_file_def open_wb_def write_bytes_def)
  then show ?thesis
    by blast
next
  case (Some n)
  with assms obtain r old where "n = RegularFile r old"
    by (cases n) auto
  with Some assms have "write_file fs p (Inr bs) = (Inr (), fs(p \<mapsto> RegularFile r bs))"
    by (simp add: write_file_def open_wb_def write_bytes_def)
  then show ?thesis
    by blast
qed

lemma write_file_no_parent:
  "fs (parent p) = None \<Longrightarrow> write_file fs p produced = (Inl (OSError ENOENT), fs)"
  by (simp add: write_file_def open_wb_def)

lemma open_wb_dir:
  "open_wb fs p = Inr fs1 \<Longrightarrow> fs q = Some Directory \<Longrightarrow> fs1 q = Some Directory"
  by (auto simp: open_wb_def split: option.splits node.splits)

lemma open_wb_file:
  "open_wb fs p = Inr fs1 \<Longrightarrow> \<exists>r. fs1 p = Some (RegularFile r [])"
  by (auto simp: open_wb_def split: option.splits node.splits)

lemma write_file_dir:
  assumes "write_file fs p produced = (res, fs')" and "fs q = Some Directory"
  shows "fs' q = Some Directory"
proof (cases "open_wb fs p")
  case (Inl e)
  with assms show ?thesis
    by (simp add: write_file_def)
next
  case (Inr fs1)
  then have d: "fs1 q = Some Directory"
    using assms(2) by (rule open_wb_dir)
  from Inr obtain r where f: "fs1 p = Some (RegularFile r [])"
    using open_wb_file by blast
  with d have "q \<noteq> p"
    by auto
  with d have "write_bytes fs1 p bs q = Some Directory" for bs
    by (auto simp: write_bytes_def split: option.splits node.splits)
  with Inr assms(1) d show ?thesis
    by (auto simp: write_file_def split: sum.splits)
qed

lemma except_FileValidationError_Inl:
  "except_FileValidationError (Inl (FileValidationError m)) =
     Inl (PDFActionError (''Validation failed: '' @ m))"
  by (simp add: except_FileValidationError_def)

lemma except_FileValidationError_Inr:
  "except_FileValidationError (Inr v) = Inr v"
  by (simp add: except_FileValidationError_def)

lemma except_Exception_result:
  "(\<exists>m fs'. except_Exception prefix r = (Inl (PDFActionError (prefix @ m)), fs')) \<or>
   (\<exists>v fs'. except_Exception prefix r = (Inr v, fs'))"
  by (cases r) (auto simp: except_Exception_def split: sum.splits)

lemma except_Exception_Inr:
  "except_Exception prefix r = (Inr v, fs') \<longleftrightarrow> r = (Inr v, fs')"
  by (cases r) (auto simp: except_Exception_def split: sum.splits)

lemma validate_paths_error:
  "validate_paths fs ps file_type = Inl e \<Longrightarrow> \<exists>m. e = FileValidationError m"
  unfolding validate_paths_def by (rule validate_paths_loop_error)

lemma validate_paths_Inr:
  "validate_paths fs ps file_type = Inr vs \<Longrightarrow> vs = map Path ps"
  unfolding validate_paths_def using validate_paths_loop_Inr by fastforce

lemma validate_pdf_error:
  "validate_pdf fs p = Inl e \<Longrightarrow> \<exists>m. e = FileValidationError m"
  using validate_pdf_result [of fs p] by auto

section \<open>Properties of the operations\<close>

lemma merge_pdfs_invalid:
  assumes "validate_paths fs file_paths ''pdf'' = Inl e"
  shows "merge_pdfs lib fs file_paths output_path =
           (Inl (PDFActionError (''Validation failed: '' @ str_exn e)), fs)"
proof -
  from assms obtain m where "e = FileValidationError m"
    using validate_paths_error by blast
  with assms show ?thesis
    by (simp add: merge_pdfs_def except_FileValidationError_Inl)
qed

lemma convert_images_to_pdf_invalid:
  assumes "validate_paths fs image_paths ''image'' = Inl e"
  shows "convert_images_to_pdf lib fs image_paths output_path =
           (Inl (PDFActionError (''Validation failed: '' @ str_exn e)), fs)"
proof -
  from assms obtain m where "e = FileValidationError m"
    using validate_paths_error by blast
  with assms show ?thesis
    by (simp add: convert_images_to_pdf_def except_FileValidationError_Inl)
qed

lemma split_pdf_invalid:
  assumes "validate_pdf fs file_path = Inl e"
  shows "split_pdf lib fs file_path output_dir =
           (Inl (PDFActionError (''Validation failed: '' @ str_exn e)), fs)"
proof -
  from assms obtain m where "e = FileValidationError m"
    using validate_pdf_error by blast
  with assms show ?thesis
    by (simp add: split_pdf_def except_FileValidationError_Inl)
qed

lemma rotate_pdf_invalid:
  assumes "validate_pdf fs file_path = Inl e"
  shows "rotate_pdf lib fs file_path output_path rotation =
           (Inl (PDFActionError (''Validation failed: '' @ str_exn e)), fs)"
proof -
  from assms obtain m where "e = FileValidationError m"
    using validate_pdf_error by blast
  with assms show ?thesis
    by (simp add: rotate_pdf_def except_FileValidationError_Inl)
qed

lemma except_Exception_not_validation:
  "fst (except_Exception prefix r) \<noteq> Inl (FileValidationError m)"
  using except_Exception_result [of prefix r] by auto

lemma merge_pdfs_no_validation_error:
  "fst (merge_pdfs lib fs file_paths output_path) \<noteq> Inl (FileValidationError m)"
proof (cases "validate_paths fs file_paths ''pdf''")
  case (Inl e)
  then show ?thesis
    by (simp add: merge_pdfs_invalid)
next
  case (Inr vs)
  then show ?thesis
    by (simp add: merge_pdfs_def except_FileValidationError_Inr except_Exception_not_validation)
qed

lemma convert_images_to_pdf_no_validation_error:
  "fst (convert_images_to_pdf lib fs image_paths output_path) \<noteq> Inl (FileValidationError m)"
proof (cases "validate_paths fs image_paths ''image''")
  case (Inl e)
  then show ?thesis
    by (simp add: convert_images_to_pdf_invalid)
next
  case (Inr vs)
  then show ?thesis
    by (simp add: convert_images_to_pdf_def except_FileValidationError_Inr
        except_Exception_not_validation)
qed

lemma split_pdf_no_validation_error:
  "fst (split_pdf lib fs file_path output_dir) \<noteq> Inl (FileValidationError m)"
proof (cases "validate_pdf fs file_path")
  case (Inl e)
  then show ?thesis
    by (simp add: split_pdf_invalid)
next
  case (Inr v)
  show ?thesis
  proof (cases "mkdir fs (Path output_dir) True True")
    case (Inl e)
    then obtain n where "e = OSError n"
      using mkdir_error by blast
    with Inl Inr show ?thesis
      by (simp add: split_pdf_def except_FileValidationError_Inr)
  next
    case (Inr fs1)
    with \<open>validate_pdf fs file_path = Inr v\<close> show ?thesis
      by (simp add: split_pdf_def except_FileValidationError_Inr
          except_Exception_not_validation)
  qed
qed

lemma rotate_pdf_no_validation_error:
  "fst (rotate_pdf lib fs file_path output_path rotation) \<noteq> Inl (FileValidationError m)"
proof (cases "validate_pdf fs file_path")
  case (Inl e)
  then show ?thesis
    by (simp add: rotate_pdf_invalid)
next
  case (Inr v)
  then show ?thesis
    by (simp add: rotate_pdf_def except_FileValidationError_Inr except_Exception_not_validation)
qed

text \<open>
  Claim C3. When the validation of its input fails, each of \<^verbatim>\<open>merge_pdfs\<close>,
  \<^verbatim>\<open>convert_images_to_pdf\<close>, \<^verbatim>\<open>split_pdf\<close> and \<^verbatim>\<open>rotate_pdf\<close> raises
  \<^verbatim>\<open>PDFActionError\<close> with the message \<^verbatim>\<open>Validation failed: \<close> followed by the message of
  the validation error, and leaves the file system as it was; and on no input does
  any of the four raise a \<^verbatim>\<open>FileValidationError\<close>.
\<close>

theorem validation_error_rewrapped:
  "(validate_paths fs file_paths ''pdf'' = Inl e \<longrightarrow>
      merge_pdfs lib fs file_paths output_path =
        (Inl (PDFActionError (''Validation failed: '' @ str_exn e)), fs)) \<and>
   (validate_paths fs image_paths ''image'' = Inl e \<longrightarrow>
      convert_images_to_pdf ilib fs image_paths output_path =
        (Inl (PDFActionError (''Validation failed: '' @ str_exn e)), fs)) \<and>
   (validate_pdf fs file_path = Inl e \<longrightarrow>
      split_pdf lib fs file_path output_dir =
        (Inl (PDFActionError (''Validation failed: '' @ str_exn e)), fs)) \<and>
   (validate_pdf fs file_path = Inl e \<longrightarrow>
      rotate_pdf lib fs file_path output_path rotation =
        (Inl (PDFActionError (''Validation failed: '' @ str_exn e)), fs)) \<and>
   (\<forall>m. fst (merge_pdfs lib fs file_paths output_path) \<noteq> Inl (FileValidationError m)) \<and>
   (\<forall>m. fst (convert_images_to_pdf ilib fs image_paths output_path) \<noteq>
          Inl (FileValidationError m)) \<and>
   (\<forall>m. fst (split_pdf lib fs file_path output_dir) \<noteq> Inl (FileValidationError m)) \<and>
   (\<forall>m. fst (rotate_pdf lib fs file_path output_path rotation) \<noteq>
          Inl (FileValidationError m))"
  using merge_pdfs_invalid [of fs file_paths e lib output_path]
    convert_images_to_pdf_invalid [of fs image_paths e ilib output_path]
    split_pdf_invalid [of fs file_path e lib output_dir]
    rotate_pdf_invalid [of fs file_path e lib output_path rotation]
    merge_pdfs_no_validation_error [of lib fs file_paths output_path]
    convert_images_to_pdf_no_validation_error [of ilib fs image_paths output_path]
    split_pdf_no_validation_error [of lib fs file_path output_dir]
    rotate_pdf_no_validation_error [of lib fs file_path output_path rotation]
  by blast

lemma split_loop_dir:
  "split_loop lib fs out_dir base_name i pages generated_files = (res, fs') \<Longrightarrow>
     fs q = Some Directory \<Longrightarrow> fs' q = Some Directory"
proof (induction pages arbitrary: fs i generated_files)
  case Nil
  then show ?case by simp
next
  case (Cons page pages)
  let ?t = "joinpath out_dir (base_name @ ''_page_'' @ str_nat (i + 1) @ ''.pdf'')"
  obtain r fs1 where w: "write_document lib fs ?t [page] = (r, fs1)"
    by (cases "write_document lib fs ?t [page]") auto
  then have d: "fs1 q = Some Directory"
    unfolding write_document_def using Cons.prems(2) by (rule write_file_dir)
  show ?case
  proof (cases r)
    case (Inl e)
    with Cons.prems(1) w d show ?thesis
      by (simp add: Let_def)
  next
    case (Inr u)
    with Cons.prems(1) w have
      "split_loop lib fs1 out_dir base_name (i + 1) pages (generated_files @ [?t]) = (res, fs')"
      by (simp add: Let_def)
    from Cons.IH [OF this d] show ?thesis .
  qed
qed

lemma rotate_try_no_parent:
  assumes "fs (parent (Path output_path)) = None"
  shows "\<exists>e. rotate_try lib fs file_path output_path rotation = (Inl e, fs)"
  using assms
  by (auto simp: rotate_try_def Let_def write_document_def write_file_no_parent
      split: sum.splits)

lemma rotate_pdf_no_parent:
  assumes "fs (parent (Path output_path)) = None"
  shows "\<exists>m. rotate_pdf lib fs file_path output_path rotation = (Inl (PDFActionError m), fs)"
proof (cases "validate_pdf fs file_path")
  case (Inl e)
  then show ?thesis
    by (simp add: rotate_pdf_invalid)
next
  case (Inr v)
  from assms obtain e where
    "rotate_try lib fs file_path output_path rotation = (Inl e, fs)"
    using rotate_try_no_parent [of fs output_path lib file_path rotation] by blast
  with Inr show ?thesis
    by (simp add: rotate_pdf_def except_FileValidationError_Inr except_Exception_def)
qed

lemma except_Exception_snd: "snd (except_Exception prefix r) = snd r"
  by (cases r) (auto simp: except_Exception_def split: sum.splits)

lemma write_file_snd_dir:
  "fs q = Some Directory \<Longrightarrow> snd (write_file fs p produced) q = Some Directory"
  using write_file_dir [of fs p produced "fst (write_file fs p produced)"
      "snd (write_file fs p produced)" q]
  by simp

lemma merge_pdfs_mkdir:
  assumes "validate_paths fs file_paths ''pdf'' = Inr vs"
    and "merger_append lib fs vs [] = Inr doc"
    and "mkdir fs (parent (Path output_path)) True True = Inr fs1"
  shows "snd (merge_pdfs lib fs file_paths output_path) =
           snd (write_file fs1 (Path output_path) (write_pages lib doc))"
    and "fst (write_file fs1 (Path output_path) (write_pages lib doc)) = Inr u \<Longrightarrow>
           fst (merge_pdfs lib fs file_paths output_path) = Inr (Path output_path)"
  using assms
  by (auto simp: merge_pdfs_def except_FileValidationError_Inr merge_try_def Let_def
      write_document_def except_Exception_def split: prod.splits sum.splits)

lemma convert_images_to_pdf_mkdir:
  assumes "validate_paths fs image_paths ''image'' = Inr vs"
    and "open_images lib fs vs [] = Inr (first_image # rest_images)"
    and "mkdir fs (parent (Path output_path)) True True = Inr fs1"
  shows "snd (convert_images_to_pdf lib fs image_paths output_path) =
           snd (write_file fs1 (Path output_path) (image_save lib first_image rest_images))"
    and "fst (write_file fs1 (Path output_path) (image_save lib first_image rest_images)) =
           Inr u \<Longrightarrow>
           fst (convert_images_to_pdf lib fs image_paths output_path) = Inr (Path output_path)"
proof -
  from assms(2) have "vs \<noteq> []"
    by (cases vs) auto
  with assms show "snd (convert_images_to_pdf lib fs image_paths output_path) =
           snd (write_file fs1 (Path output_path) (image_save lib first_image rest_images))"
    and "fst (write_file fs1 (Path output_path) (image_save lib first_image rest_images)) =
           Inr u \<Longrightarrow>
           fst (convert_images_to_pdf lib fs image_paths output_path) = Inr (Path output_path)"
    by (auto simp: convert_images_to_pdf_def except_FileValidationError_Inr convert_try_def
        Let_def save_images_def except_Exception_def split: prod.splits sum.splits)
qed

lemma split_loop_snd_dir:
  "fs q = Some Directory \<Longrightarrow>
     snd (split_loop lib fs out_dir base_name i pages generated_files) q = Some Directory"
  using split_loop_dir [of lib fs out_dir base_name i pages generated_files
      "fst (split_loop lib fs out_dir base_name i pages generated_files)"
      "snd (split_loop lib fs out_dir base_name i pages generated_files)" q]
  by simp

lemma split_pdf_mkdir:
  assumes "validate_pdf fs file_path = Inr True"
    and "mkdir fs (Path output_dir) True True = Inr fs1"
  shows "snd (split_pdf lib fs file_path output_dir) (Path output_dir) = Some Directory"
proof -
  from mkdir_Inr [OF assms(2)] have d: "fs1 (Path output_dir) = Some Directory"
    by simp
  have "snd (split_try lib fs1 (Path file_path) (Path output_dir)) (Path output_dir) =
      Some Directory"
    using d by (auto simp: split_try_def split_loop_snd_dir split: sum.splits)
  with assms show ?thesis
    by (simp add: split_pdf_def except_FileValidationError_Inr Let_def except_Exception_snd)
qed

text \<open>
  Claim C8. \<^verbatim>\<open>merge_pdfs\<close> and \<^verbatim>\<open>convert_images_to_pdf\<close> make the parent directory of
  the output file, and \<^verbatim>\<open>split_pdf\<close> makes the output directory, before they write:
  once the validation has passed (and, for merge and convert, the library has read the
  inputs) and the directory can be made, it is a directory when the operation ends,
  whether or not it existed before and whether or not the writing then succeeds; and
  the writing, which needs that directory, succeeds when the output path is not a
  directory and the library writes. \<^verbatim>\<open>rotate_pdf\<close> does not make the directory: when
  the parent directory of its output file does not exist it raises \<^verbatim>\<open>PDFActionError\<close>
  and leaves the file system as it was.
\<close>

theorem output_directory_made_before_writing:
  "(validate_paths fs file_paths ''pdf'' = Inr vs \<and> merger_append lib fs vs [] = Inr doc \<and>
    \<not> isl (mkdir fs (parent (Path output_path)) True True) \<longrightarrow>
      is_dir (snd (merge_pdfs lib fs file_paths output_path)) (parent (Path output_path)) \<and>
      (\<not> is_dir (projr (mkdir fs (parent (Path output_path)) True True)) (Path output_path) \<and>
       \<not> isl (write_pages lib doc) \<longrightarrow>
         fst (merge_pdfs lib fs file_paths output_path) = Inr (Path output_path))) \<and>
   (validate_paths fs image_paths ''image'' = Inr ivs \<and>
    open_images ilib fs ivs [] = Inr (first_image # rest_images) \<and>
    \<not> isl (mkdir fs (parent (Path output_path)) True True) \<longrightarrow>
      is_dir (snd (convert_images_to_pdf ilib fs image_paths output_path))
        (parent (Path output_path)) \<and>
      (\<not> is_dir (projr (mkdir fs (parent (Path output_path)) True True)) (Path output_path) \<and>
       \<not> isl (image_save ilib first_image rest_images) \<longrightarrow>
         fst (convert_images_to_pdf ilib fs image_paths output_path) =
           Inr (Path output_path))) \<and>
   (validate_pdf fs file_path = Inr True \<and>
    \<not> isl (mkdir fs (Path output_dir) True True) \<longrightarrow>
      is_dir (snd (split_pdf lib fs file_path output_dir)) (Path output_dir)) \<and>
   (\<not> exists fs (parent (Path output_path)) \<longrightarrow>
      (\<exists>m. rotate_pdf lib fs file_path output_path rotation =
             (Inl (PDFActionError m), fs)))"
proof (intro conjI impI)
  assume a: "validate_paths fs file_paths ''pdf'' = Inr vs \<and>
    merger_append lib fs vs [] = Inr doc \<and>
    \<not> isl (mkdir fs (parent (Path output_path)) True True)"
  then obtain fs1 where m: "mkdir fs (parent (Path output_path)) True True = Inr fs1"
    by (cases "mkdir fs (parent (Path output_path)) True True") auto
  from mkdir_Inr [OF m] have d: "fs1 (parent (Path output_path)) = Some Directory"
    by simp
  from a m have s: "snd (merge_pdfs lib fs file_paths output_path) =
           snd (write_file fs1 (Path output_path) (write_pages lib doc))"
    by (simp add: merge_pdfs_mkdir(1))
  from d show "is_dir (snd (merge_pdfs lib fs file_paths output_path))
      (parent (Path output_path))"
    by (simp add: s write_file_snd_dir is_dir_def)
  assume b: "\<not> is_dir (projr (mkdir fs (parent (Path output_path)) True True))
      (Path output_path) \<and> \<not> isl (write_pages lib doc)"
  then obtain bs where w: "write_pages lib doc = Inr bs"
    by (cases "write_pages lib doc") auto
  from b m have n: "fs1 (Path output_path) \<noteq> Some Directory"
    by (auto simp: is_dir_def)
  from write_file_ok [OF d n, of bs] w
  have "fst (write_file fs1 (Path output_path) (write_pages lib doc)) = Inr ()"
    by auto
  with a m show "fst (merge_pdfs lib fs file_paths output_path) = Inr (Path output_path)"
    by (simp add: merge_pdfs_mkdir(2))
next
  assume a: "validate_paths fs image_paths ''image'' = Inr ivs \<and>
    open_images ilib fs ivs [] = Inr (first_image # rest_images) \<and>
    \<not> isl (mkdir fs (parent (Path output_path)) True True)"
  then obtain fs1 where m: "mkdir fs (parent (Path output_path)) True True = Inr fs1"
    by (cases "mkdir fs (parent (Path output_path)) True True") auto
  from mkdir_Inr [OF m] have d: "fs1 (parent (Path output_path)) = Some Directory"
    by simp
  from a m have s: "snd (convert_images_to_pdf ilib fs image_paths output_path) =
           snd (write_file fs1 (Path output_path) (image_save ilib first_image rest_images))"
    by (simp add: convert_images_to_pdf_mkdir(1))
  from d show "is_dir (snd (convert_images_to_pdf ilib fs image_paths output_path))
      (parent (Path output_path))"
    by (simp add: s write_file_snd_dir is_dir_def)
  assume b: "\<not> is_dir (projr (mkdir fs (parent (Path output_path)) True True))
      (Path output_path) \<and> \<not> isl (image_save ilib first_image rest_images)"
  then obtain bs where w: "image_save ilib first_image rest_images = Inr bs"
    by (cases "image_save ilib first_image rest_images") auto
  from b m have n: "fs1 (Path output_path) \<noteq> Some Directory"
    by (auto simp: is_dir_def)
  from write_file_ok [OF d n, of bs] w
  have "fst (write_file fs1 (Path output_path) (image_save ilib first_image rest_images)) =
      Inr ()"
    by auto
  with a m show "fst (convert_images_to_pdf ilib fs image_paths output_path) =
      Inr (Path output_path)"
    by (simp add: convert_images_to_pdf_mkdir(2))
next
  assume a: "validate_pdf fs file_path = Inr True \<and>
    \<not> isl (mkdir fs (Path output_dir) True True)"
  then obtain fs1 where m: "mkdir fs (Path output_dir) True True = Inr fs1"
    by (cases "mkdir fs (Path output_dir) True True") auto
  with a show "is_dir (snd (split_pdf lib fs file_path output_dir)) (Path output_dir)"
    by (simp add: split_pdf_mkdir is_dir_def)
next
  assume "\<not> exists fs (parent (Path output_path))"
  then have "fs (parent (Path output_path)) = None"
    by (simp add: exists_def)
  then show "\<exists>m. rotate_pdf lib fs file_path output_path rotation =
             (Inl (PDFActionError m), fs)"
    by (rule rotate_pdf_no_parent)
qed

lemma merge_pdfs_empty:
  assumes "mkdir fs (parent (Path output_path)) True True = Inr fs1"
    and "\<not> is_dir fs1 (Path output_path)"
    and "write_pages lib [] = Inr bs"
  shows "\<exists>r. merge_pdfs lib fs [] output_path =
           (Inr (Path output_path), fs1(Path output_path \<mapsto> RegularFile r bs))"
proof -
  from mkdir_Inr [OF assms(1)] have d: "fs1 (parent (Path output_path)) = Some Directory"
    by simp
  from assms(2) have n: "fs1 (Path output_path) \<noteq> Some Directory"
    by (auto simp: is_dir_def)
  from write_file_ok [OF d n, of bs] obtain r where
    "write_file fs1 (Path output_path) (Inr bs) =
       (Inr (), fs1(Path output_path \<mapsto> RegularFile r bs))"
    by blast
  with assms have "merge_pdfs lib fs [] output_path =
           (Inr (Path output_path), fs1(Path output_path \<mapsto> RegularFile r bs))"
    by (simp add: merge_pdfs_def validate_paths_def except_FileValidationError_Inr
        merge_try_def write_document_def except_Exception_def Let_def)
  then show ?thesis
    by blast
qed

lemma convert_no_images_iff:
  "fst (convert_images_to_pdf lib fs image_paths output_path) =
     Inl (PDFActionError ''No valid images provided.'') \<longleftrightarrow> image_paths = []"
proof (cases "validate_paths fs image_paths ''image''")
  case (Inl e)
  then have "image_paths \<noteq> []"
    by (auto simp: validate_paths_def)
  with Inl show ?thesis
    by (simp add: convert_images_to_pdf_invalid)
next
  case (Inr vs)
  then have vs: "vs = map Path image_paths"
    by (rule validate_paths_Inr)
  show ?thesis
  proof (cases "image_paths = []")
    case True
    with Inr vs show ?thesis
      by (simp add: convert_images_to_pdf_def except_FileValidationError_Inr)
  next
    case False
    with Inr vs show ?thesis
      using except_Exception_result [of "''Failed to convert images to PDF: ''"
          "convert_try lib fs vs output_path"]
      by (auto simp: convert_images_to_pdf_def except_FileValidationError_Inr)
  qed
qed

text \<open>
  Claim C6. On the empty list \<^verbatim>\<open>merge_pdfs\<close> returns the output path and leaves the
  empty document at it, provided the parent directory can be made, the output path is
  not a directory and the library writes the empty document. \<^verbatim>\<open>convert_images_to_pdf\<close>
  raises \<^verbatim>\<open>PDFActionError\<close> with the message \<^verbatim>\<open>No valid images provided.\<close> exactly when
  its input list, and so the validated list, is empty.
\<close>

theorem empty_input_merge_and_convert:
  "(\<not> isl (mkdir fs (parent (Path output_path)) True True) \<and>
    \<not> is_dir (projr (mkdir fs (parent (Path output_path)) True True)) (Path output_path) \<and>
    write_pages lib [] = Inr bs \<longrightarrow>
      fst (merge_pdfs lib fs [] output_path) = Inr (Path output_path) \<and>
      map_option content (snd (merge_pdfs lib fs [] output_path) (Path output_path)) =
        Some bs) \<and>
   (fst (convert_images_to_pdf ilib fs image_paths output_path) =
      Inl (PDFActionError ''No valid images provided.'') \<longleftrightarrow> image_paths = []) \<and>
   (validate_paths fs image_paths ''image'' = Inr validated_paths \<longrightarrow>
      (fst (convert_images_to_pdf ilib fs image_paths output_path) =
         Inl (PDFActionError ''No valid images provided.'') \<longleftrightarrow> validated_paths = []))"
proof -
  have "fst (merge_pdfs lib fs [] output_path) = Inr (Path output_path) \<and>
      map_option content (snd (merge_pdfs lib fs [] output_path) (Path output_path)) =
        Some bs"
    if m: "\<not> isl (mkdir fs (parent (Path output_path)) True True)"
      and d: "\<not> is_dir (projr (mkdir fs (parent (Path output_path)) True True))
                (Path output_path)"
      and w: "write_pages lib [] = Inr bs"
  proof -
    from m obtain fs1 where f: "mkdir fs (parent (Path output_path)) True True = Inr fs1"
      by (cases "mkdir fs (parent (Path output_path)) True True") auto
    with d have "\<not> is_dir fs1 (Path output_path)"
      by simp
    from merge_pdfs_empty [OF f this w] show ?thesis
      by auto
  qed
  then show ?thesis
    using convert_no_images_iff [of ilib fs image_paths output_path]
      validate_paths_Inr [of fs image_paths "''image''" validated_paths]
    by auto
qed

lemma rotate_loop_accepts:
  "\<forall>page \<in> set pages. \<not> isl (page_rotate lib page rotation) \<Longrightarrow>
     rotate_loop lib rotation pages writer =
       Inr (writer @ map (\<lambda>page. projr (page_rotate lib page rotation)) pages)"
proof (induction pages arbitrary: writer)
  case Nil
  then show ?case by simp
next
  case (Cons page pages)
  then obtain page' where p: "page_rotate lib page rotation = Inr page'"
    by (cases "page_rotate lib page rotation") auto
  from Cons.prems have "\<forall>page \<in> set pages. \<not> isl (page_rotate lib page rotation)"
    by simp
  from Cons.IH [OF this, of "writer @ [page']"] p show ?case
    by simp
qed

lemma rotate_loop_rejects:
  "\<exists>page \<in> set pages. isl (page_rotate lib page rotation) \<Longrightarrow>
     \<exists>e. rotate_loop lib rotation pages writer = Inl e"
proof (induction pages arbitrary: writer)
  case Nil
  then show ?case by simp
next
  case (Cons page pages)
  show ?case
  proof (cases "page_rotate lib page rotation")
    case (Inl e)
    then show ?thesis by simp
  next
    case (Inr page')
    with Cons.prems have "\<exists>page \<in> set pages. isl (page_rotate lib page rotation)"
      by auto
    from Cons.IH [OF this, of "writer @ [page']"] Inr show ?thesis
      by simp
  qed
qed

lemma rotate_pdf_accepts:
  assumes "validate_pdf fs file_path = Inr True"
    and "PdfReader lib fs (Path file_path) = Inr pages"
    and "\<forall>page \<in> set pages. \<not> isl (page_rotate lib page rotation)"
    and "is_dir fs (parent (Path output_path))"
    and "\<not> is_dir fs (Path output_path)"
    and "write_pages lib (map (\<lambda>page. projr (page_rotate lib page rotation)) pages) = Inr bs"
  shows "\<exists>r. rotate_pdf lib fs file_path output_path rotation =
           (Inr (Path output_path), fs(Path output_path \<mapsto> RegularFile r bs))"
proof -
  from assms(4) have d: "fs (parent (Path output_path)) = Some Directory"
    by (auto simp: is_dir_def split: option.splits node.splits)
  from assms(5) have n: "fs (Path output_path) \<noteq> Some Directory"
    by (auto simp: is_dir_def)
  from write_file_ok [OF d n, of bs] obtain r where
    w: "write_file fs (Path output_path) (Inr bs) =
       (Inr (), fs(Path output_path \<mapsto> RegularFile r bs))"
    by blast
  have l: "rotate_loop lib rotation pages [] =
      Inr (map (\<lambda>page. projr (page_rotate lib page rotation)) pages)"
    using rotate_loop_accepts [OF assms(3), of "[]"] by simp
  have "rotate_pdf lib fs file_path output_path rotation =
           (Inr (Path output_path), fs(Path output_path \<mapsto> RegularFile r bs))"
    using assms(1,2,6) l w
    by (simp add: rotate_pdf_def except_FileValidationError_Inr rotate_try_def
        write_document_def except_Exception_def Let_def)
  then show ?thesis
    by blast
qed

lemma rotate_pdf_rejects:
  assumes "validate_pdf fs file_path = Inr True"
    and "PdfReader lib fs (Path file_path) = Inr pages"
    and "\<exists>page \<in> set pages. isl (page_rotate lib page rotation)"
  shows "\<exists>m. rotate_pdf lib fs file_path output_path rotation =
           (Inl (PDFActionError (''Failed to rotate PDF: '' @ m)), fs)"
proof -
  from rotate_loop_rejects [OF assms(3), of "[]"] obtain e where
    "rotate_loop lib rotation pages [] = Inl e"
    by blast
  with assms(1,2) have "rotate_pdf lib fs file_path output_path rotation =
           (Inl (PDFActionError (''Failed to rotate PDF: '' @ str_exn e)), fs)"
    by (simp add: rotate_pdf_def except_FileValidationError_Inr rotate_try_def
        except_Exception_def)
  then show ?thesis
    by blast
qed

text \<open>
  Claim C4 as it is written fails with a library whose page rotation accepts multiples
  of 90 only: \<^verbatim>\<open>doc.pdf\<close> is valid and is read as two pages, rotating it by 90 succeeds,
  and rotating it by 45 raises \<^verbatim>\<open>PDFActionError\<close>.
\<close>

theorem rotate_any_angle_strict_library_counterexample:
  "validate_pdf example_fs (Str ''doc.pdf'') = Inr True \<and>
   PdfReader strict_pdflib example_fs (Path (Str ''doc.pdf'')) = Inr [(0x41, 0), (0x42, 0)] \<and>
   fst (rotate_pdf strict_pdflib example_fs (Str ''doc.pdf'') (Str ''rotated.pdf'') 90) =
     Inr (PurePath False [''rotated.pdf'']) \<and>
   fst (rotate_pdf strict_pdflib example_fs (Str ''doc.pdf'') (Str ''rotated.pdf'') 45) =
     Inl (PDFActionError ''Failed to rotate PDF: Rotation angle must be a multiple of 90'')"
  by code_simp

text \<open>
  Claim C4, amended. \<^verbatim>\<open>rotate_pdf\<close> puts no condition of its own on the angle and
  passes it unchanged to the library's page rotation, for every page in order. For an
  input that passes \<^verbatim>\<open>validate_pdf\<close> and that the library reads as \<open>pages\<close>, and for
  any integer \<open>rotation\<close>: when the library's page rotation accepts \<open>rotation\<close> on every
  page, the document to write is the list of the input pages, each rotated by
  \<open>rotation\<close>, in the input order (so it has as many pages as the input), and
  \<^verbatim>\<open>rotate_pdf\<close> returns the output path with that document written there, provided
  the parent of the output path is a directory, the output path is not, and the library
  writes the document; when the library's page rotation rejects \<open>rotation\<close> on some
  page, \<^verbatim>\<open>rotate_pdf\<close> raises \<^verbatim>\<open>PDFActionError\<close> with the message
  \<^verbatim>\<open>Failed to rotate PDF: \<close> and the library's message, and writes nothing.
\<close>

theorem rotate_passes_angle_to_library:
  assumes "validate_pdf fs file_path = Inr True"
    and "PdfReader lib fs (Path file_path) = Inr pages"
  shows "((\<forall>page \<in> set pages. \<not> isl (page_rotate lib page rotation)) \<longrightarrow>
            rotate_loop lib rotation pages [] =
              Inr (map (\<lambda>page. projr (page_rotate lib page rotation)) pages)) \<and>
         ((\<forall>page \<in> set pages. \<not> isl (page_rotate lib page rotation)) \<and>
          is_dir fs (parent (Path output_path)) \<and> \<not> is_dir fs (Path output_path) \<and>
          write_pages lib (map (\<lambda>page. projr (page_rotate lib page rotation)) pages) =
            Inr bs \<longrightarrow>
            fst (rotate_pdf lib fs file_path output_path rotation) = Inr (Path output_path) \<and>
            map_option content
              (snd (rotate_pdf lib fs file_path output_path rotation) (Path output_path)) =
              Some bs) \<and>
         ((\<exists>page \<in> set pages. isl (page_rotate lib page rotation)) \<longrightarrow>
            (\<exists>m. rotate_pdf lib fs file_path output_path rotation =
                   (Inl (PDFActionError (''Failed to rotate PDF: '' @ m)), fs)))"
proof (intro conjI impI)
  assume "\<forall>page \<in> set pages. \<not> isl (page_rotate lib page rotation)"
  from rotate_loop_accepts [OF this, of "[]"]
  show "rotate_loop lib rotation pages [] =
      Inr (map (\<lambda>page. projr (page_rotate lib page rotation)) pages)"
    by simp
next
  assume a: "(\<forall>page \<in> set pages. \<not> isl (page_rotate lib page rotation)) \<and>
          is_dir fs (parent (Path output_path)) \<and> \<not> is_dir fs (Path output_path) \<and>
          write_pages lib (map (\<lambda>page. projr (page_rotate lib page rotation)) pages) =
            Inr bs"
  then obtain r where "rotate_pdf lib fs file_path output_path rotation =
           (Inr (Path output_path), fs(Path output_path \<mapsto> RegularFile r bs))"
    using rotate_pdf_accepts [OF assms, of rotation output_path bs] by blast
  then show "fst (rotate_pdf lib fs file_path output_path rotation) = Inr (Path output_path)"
    and "map_option content
              (snd (rotate_pdf lib fs file_path output_path rotation) (Path output_path)) =
              Some bs"
    by simp_all
next
  assume "\<exists>page \<in> set pages. isl (page_rotate lib page rotation)"
  with assms show "\<exists>m. rotate_pdf lib fs file_path output_path rotation =
                   (Inl (PDFActionError (''Failed to rotate PDF: '' @ m)), fs)"
    by (rule rotate_pdf_rejects)
qed

lemma split_loop_ok:
  fixes d :: path and base :: string
  defines "f \<equiv> \<lambda>k. joinpath d (base @ ''_page_'' @ str_nat (k + 1) @ ''.pdf'')"
  assumes "fs d = Some Directory"
    and "\<forall>page \<in> set pages. \<not> isl (write_pages lib [page])"
    and "\<forall>j < length pages. fs (f (i + j)) \<noteq> Some Directory"
  shows "fst (split_loop lib fs d base i pages gen) =
           Inr (gen @ map (\<lambda>j. f (i + j)) [0..<length pages])"
  using assms(2-)
proof (induction pages arbitrary: fs i gen)
  case Nil
  then show ?case by simp
next
  case (Cons page pages)
  have step: "split_loop lib fs d base i (page # pages) gen =
      (case write_document lib fs (f i) [page] of
         (Inl e, fs') \<Rightarrow> (Inl e, fs')
       | (Inr u, fs') \<Rightarrow> split_loop lib fs' d base (i + 1) pages (gen @ [f i]))"
    unfolding f_def by (simp only: split_loop.simps Let_def)
  from Cons.prems(2) obtain bs where b: "write_pages lib [page] = Inr bs"
    by (cases "write_pages lib [page]") auto
  have pd: "fs (parent (f i)) = Some Directory"
    using Cons.prems(1) by (simp add: f_def parent_joinpath)
  have nd: "fs (f i) \<noteq> Some Directory"
    using Cons.prems(3) by force
  from write_file_ok [OF pd nd, of bs] obtain r where
    w: "write_document lib fs (f i) [page] = (Inr (), fs(f i \<mapsto> RegularFile r bs))"
    using b by (auto simp: write_document_def)
  let ?fs' = "fs(f i \<mapsto> RegularFile r bs)"
  have "f i \<noteq> d"
    unfolding f_def by (rule joinpath_neq)
  then have d': "?fs' d = Some Directory"
    using Cons.prems(1) by auto
  have w': "\<forall>page \<in> set pages. \<not> isl (write_pages lib [page])"
    using Cons.prems(2) by simp
  have n': "\<forall>j < length pages. ?fs' (f (Suc i + j)) \<noteq> Some Directory"
  proof (intro allI impI)
    fix j assume "j < length pages"
    then have "fs (f (i + Suc j)) \<noteq> Some Directory"
      using Cons.prems(3) by force
    then show "?fs' (f (Suc i + j)) \<noteq> Some Directory"
      by auto
  qed
  have ih: "fst (split_loop lib ?fs' d base (Suc i) pages (gen @ [f i])) =
           Inr ((gen @ [f i]) @ map (\<lambda>j. f (Suc i + j)) [0..<length pages])"
    using d' w' n' by (rule Cons.IH)
  have m: "map (\<lambda>j. f (i + j)) [0..<length (page # pages)] =
      f i # map (\<lambda>j. f (Suc i + j)) [0..<length pages]"
    by (simp add: map_upt_Suc del: upt_Suc)
  show ?case
    unfolding step w m using ih by simp
qed

lemma validate_pdf_Inr_regular:
  assumes "validate_pdf fs file_path = Inr v"
  shows "\<exists>r bs. fs (Path file_path) = Some (RegularFile r bs)"
proof (cases "validate_file fs file_path")
  case (Inl e)
  with assms show ?thesis
    by (simp add: validate_pdf_def)
next
  case (Inr u)
  then show ?thesis
    by (rule validate_file_Inr)
qed

lemma except_Exception_fst_Inr:
  "fst r = Inr v \<Longrightarrow> fst (except_Exception prefix r) = Inr v"
  by (cases r) (simp add: except_Exception_def)

lemma split_pdf_ok:
  assumes "validate_pdf fs file_path = Inr True"
    and "mkdir fs (Path output_dir) True True = Inr fs1"
    and "PdfReader lib fs (Path file_path) = Inr pages"
    and "\<forall>page \<in> set pages. \<not> isl (write_pages lib [page])"
    and "\<forall>i < length pages.
           \<not> is_dir fs (joinpath (Path output_dir)
                          (stem (Path file_path) @ ''_page_'' @ str_nat (i + 1) @ ''.pdf''))"
  shows "fst (split_pdf lib fs file_path output_dir) =
           Inr (map (\<lambda>i. joinpath (Path output_dir)
                            (stem (Path file_path) @ ''_page_'' @ str_nat (i + 1) @ ''.pdf''))
                    [0..<length pages])"
proof -
  let ?f = "\<lambda>i. joinpath (Path output_dir)
                  (stem (Path file_path) @ ''_page_'' @ str_nat (i + 1) @ ''.pdf'')"
  from validate_pdf_Inr_regular [OF assms(1)] obtain r bs where
    src: "fs (Path file_path) = Some (RegularFile r bs)"
    by blast
  with mkdir_Inr [OF assms(2)] have "fs1 (Path file_path) = fs (Path file_path)"
    by simp
  then have "open_rb fs1 (Path file_path) = open_rb fs (Path file_path)"
    by (simp add: open_rb_def)
  with assms(3) have rd: "PdfReader lib fs1 (Path file_path) = Inr pages"
    by (simp add: PdfReader_def)
  from mkdir_Inr [OF assms(2)] have d: "fs1 (Path output_dir) = Some Directory"
    by simp
  have n: "\<forall>j < length pages. fs1 (?f (0 + j)) \<noteq> Some Directory"
  proof (intro allI impI)
    fix j assume j: "j < length pages"
    have "fs1 (?f j) = fs (?f j)"
      using assms(2) length_parts_joinpath by (rule mkdir_frame)
    moreover have "fs (?f j) \<noteq> Some Directory"
      using assms(5) j by (auto simp: is_dir_def)
    ultimately show "fs1 (?f (0 + j)) \<noteq> Some Directory"
      by simp
  qed
  have "fst (split_loop lib fs1 (Path output_dir) (stem (Path file_path)) 0 pages []) =
      Inr ([] @ map (\<lambda>j. ?f (0 + j)) [0..<length pages])"
    using d assms(4) n by (rule split_loop_ok)
  then have "fst (split_try lib fs1 (Path file_path) (Path output_dir)) =
      Inr (map ?f [0..<length pages])"
    using rd by (simp add: split_try_def)
  then have "fst (except_Exception ''Failed to split PDF: ''
      (split_try lib fs1 (Path file_path) (Path output_dir))) = Inr (map ?f [0..<length pages])"
    by (rule except_Exception_fst_Inr)
  with assms(1,2) show ?thesis
    by (simp add: split_pdf_def except_FileValidationError_Inr Let_def)
qed

text \<open>
  Claim C5. For an input that passes \<^verbatim>\<open>validate_pdf\<close> and that the library reads as
  \<open>N\<close> pages, \<^verbatim>\<open>split_pdf\<close> returns exactly \<open>N\<close> paths, in page order: the files
  \<^verbatim>\<open>{stem}_page_1.pdf\<close> to \<^verbatim>\<open>{stem}_page_N.pdf\<close> in the output directory, \<open>stem\<close> being
  the name of the input file without its suffix; for no pages it returns the empty
  list. This holds when the output directory can be made, the library writes each
  page, and none of the output paths is a directory.
\<close>

theorem split_one_file_per_page:
  assumes "validate_pdf fs file_path = Inr True"
    and "\<not> isl (mkdir fs (Path output_dir) True True)"
    and "PdfReader lib fs (Path file_path) = Inr pages"
    and "\<forall>page \<in> set pages. \<not> isl (write_pages lib [page])"
    and "\<forall>t \<in> set (map (\<lambda>i. joinpath (Path output_dir)
                             (stem (Path file_path) @ ''_page_'' @ str_nat (i + 1) @ ''.pdf''))
                       [0..<length pages]). \<not> is_dir fs t"
  shows "fst (split_pdf lib fs file_path output_dir) =
           Inr (map (\<lambda>i. joinpath (Path output_dir)
                            (stem (Path file_path) @ ''_page_'' @ str_nat (i + 1) @ ''.pdf''))
                    [0..<length pages]) \<and>
         (pages = [] \<longrightarrow> fst (split_pdf lib fs file_path output_dir) = Inr [])"
proof -
  from assms(2) obtain fs1 where m: "mkdir fs (Path output_dir) True True = Inr fs1"
    by (cases "mkdir fs (Path output_dir) True True") auto
  from assms(5) have n: "\<forall>i < length pages.
           \<not> is_dir fs (joinpath (Path output_dir)
                          (stem (Path file_path) @ ''_page_'' @ str_nat (i + 1) @ ''.pdf''))"
    by simp
  from split_pdf_ok [OF assms(1) m assms(3,4) n] show ?thesis
    by simp
qed

section \<open>The operations on the example data\<close>

text \<open>
  Files whose content is not what their name says, given to the four operations.
\<close>

theorem validation_error_rewrapped_witness:
  "merge_pdfs example_pdflib example_fs [Str ''doc.pdf'', Str ''fake.pdf''] (Str ''out.pdf'') =
     (Inl (PDFActionError ''Validation failed: Invalid PDF file header: fake.pdf''),
      example_fs) \<and>
   convert_images_to_pdf example_imglib example_fs [Str ''fake.png''] (Str ''out.pdf'') =
     (Inl (PDFActionError ''Validation failed: Invalid PNG file header: fake.png''),
      example_fs) \<and>
   split_pdf example_pdflib example_fs (Str ''fake.pdf'') (Str ''pages'') =
     (Inl (PDFActionError ''Validation failed: Invalid PDF file header: fake.pdf''),
      example_fs) \<and>
   rotate_pdf example_pdflib example_fs (Str ''fake.pdf'') (Str ''rotated.pdf'') 90 =
     (Inl (PDFActionError ''Validation failed: Invalid PDF file header: fake.pdf''),
      example_fs)"
proof -
  have v1: "validate_paths example_fs [Str ''doc.pdf'', Str ''fake.pdf''] ''pdf'' =
      Inl (FileValidationError ''Invalid PDF file header: fake.pdf'')"
    by code_simp
  have v2: "validate_paths example_fs [Str ''fake.png''] ''image'' =
      Inl (FileValidationError ''Invalid PNG file header: fake.png'')"
    by code_simp
  have v3: "validate_pdf example_fs (Str ''fake.pdf'') =
      Inl (FileValidationError ''Invalid PDF file header: fake.pdf'')"
    by code_simp
  show ?thesis
    using
      validation_error_rewrapped [where fs = example_fs
        and file_paths = "[Str ''doc.pdf'', Str ''fake.pdf'']"
        and e = "FileValidationError ''Invalid PDF file header: fake.pdf''"
        and lib = example_pdflib and output_path = "Str ''out.pdf''"
        and file_path = "Str ''fake.pdf''" and output_dir = "Str ''pages''"
        and image_paths = "[]" and ilib = example_imglib]
      validation_error_rewrapped [where fs = example_fs
        and file_paths = "[]"
        and e = "FileValidationError ''Invalid PDF file header: fake.pdf''"
        and lib = example_pdflib and output_path = "Str ''rotated.pdf''"
        and file_path = "Str ''fake.pdf''" and output_dir = "Str ''pages''"
        and image_paths = "[]" and ilib = example_imglib and rotation = 90]
      validation_error_rewrapped [where fs = example_fs
        and file_paths = "[]"
        and e = "FileValidationError ''Invalid PNG file header: fake.png''"
        and lib = example_pdflib and output_path = "Str ''out.pdf''"
        and file_path = "Str ''fake.pdf''" and output_dir = "Str ''pages''"
        and image_paths = "[Str ''fake.png'']" and ilib = example_imglib]
      v1 v2 v3
    by simp
qed

text \<open>Splitting the two pages of \<^verbatim>\<open>doc.pdf\<close> into a directory that does not exist yet.\<close>

theorem split_one_file_per_page_witness:
  "fst (split_pdf example_pdflib example_fs (Str ''doc.pdf'') (Str ''pages'')) =
     Inr [PurePath False [''pages'', ''doc_page_1.pdf''],
          PurePath False [''pages'', ''doc_page_2.pdf'']]"
proof -
  have h1: "validate_pdf example_fs (Str ''doc.pdf'') = Inr True"
    by code_simp
  have h2: "\<not> isl (mkdir example_fs (Path (Str ''pages'')) True True)"
    by code_simp
  have h3: "PdfReader example_pdflib example_fs (Path (Str ''doc.pdf'')) =
      Inr [(0x41, 0), (0x42, 0)]"
    by code_simp
  have h4: "\<forall>page \<in> set [(0x41 :: byte, 0 :: int), (0x42, 0)].
      \<not> isl (write_pages example_pdflib [page])"
    by code_simp
  have h5: "\<forall>t \<in> set (map (\<lambda>i. joinpath (Path (Str ''pages''))
                 (stem (Path (Str ''doc.pdf'')) @ ''_page_'' @ str_nat (i + 1) @ ''.pdf''))
               [0..<length [(0x41 :: byte, 0 :: int), (0x42, 0)]]). \<not> is_dir example_fs t"
    by code_simp
  have n: "map (\<lambda>i. joinpath (Path (Str ''pages''))
                 (stem (Path (Str ''doc.pdf'')) @ ''_page_'' @ str_nat (i + 1) @ ''.pdf''))
               [0..<length [(0x41 :: byte, 0 :: int), (0x42, 0)]] =
      [PurePath False [''pages'', ''doc_page_1.pdf''],
       PurePath False [''pages'', ''doc_page_2.pdf'']]"
    by code_simp
  from split_one_file_per_page [OF h1 h2 h3 h4 h5] show ?thesis
    unfolding n by blast
qed

text \<open>Merging no documents, converting no images, converting one image.\<close>

theorem empty_input_merge_and_convert_witness:
  "fst (merge_pdfs example_pdflib example_fs [] (Str ''out/merged.pdf'')) =
     Inr (Path (Str ''out/merged.pdf'')) \<and>
   map_option content
     (snd (merge_pdfs example_pdflib example_fs [] (Str ''out/merged.pdf''))
        (Path (Str ''out/merged.pdf''))) = Some pdf_magic \<and>
   fst (convert_images_to_pdf example_imglib example_fs [] (Str ''out/scan.pdf'')) =
     Inl (PDFActionError ''No valid images provided.'') \<and>
   fst (convert_images_to_pdf example_imglib example_fs [Str ''scan.png'']
          (Str ''out/scan.pdf'')) \<noteq>
     Inl (PDFActionError ''No valid images provided.'')"
proof -
  have h1: "\<not> isl (mkdir example_fs (parent (Path (Str ''out/merged.pdf''))) True True)"
    by code_simp
  have h2: "\<not> is_dir (projr (mkdir example_fs (parent (Path (Str ''out/merged.pdf'')))
      True True)) (Path (Str ''out/merged.pdf''))"
    by code_simp
  have h3: "write_pages example_pdflib [] = Inr pdf_magic"
    by code_simp
  show ?thesis
    using
      empty_input_merge_and_convert [where fs = example_fs
        and output_path = "Str ''out/merged.pdf''" and lib = example_pdflib
        and bs = pdf_magic and ilib = example_imglib and image_paths = "[]"
        and validated_paths = "[]"]
      empty_input_merge_and_convert [where fs = example_fs
        and output_path = "Str ''out/scan.pdf''" and lib = example_pdflib
        and bs = pdf_magic and ilib = example_imglib and image_paths = "[]"
        and validated_paths = "[]"]
      empty_input_merge_and_convert [where fs = example_fs
        and output_path = "Str ''out/scan.pdf''" and lib = example_pdflib
        and bs = pdf_magic and ilib = example_imglib and image_paths = "[Str ''scan.png'']"
        and validated_paths = "[]"]
      h1 h2 h3
    by blast
qed

text \<open>
  Rotating the two pages of \<^verbatim>\<open>doc.pdf\<close> by 45 with the library that accepts any angle;
  by -90 and by 45 with the library that accepts multiples of 90 only.
\<close>

theorem rotate_passes_angle_to_library_witness:
  "fst (rotate_pdf example_pdflib example_fs (Str ''doc.pdf'') (Str ''rotated.pdf'') 45) =
     Inr (Path (Str ''rotated.pdf'')) \<and>
   map_option content
     (snd (rotate_pdf example_pdflib example_fs (Str ''doc.pdf'') (Str ''rotated.pdf'') 45)
        (Path (Str ''rotated.pdf''))) =
     Some (pdf_magic @ [0x41, 45, 0x42, 45]) \<and>
   fst (rotate_pdf strict_pdflib example_fs (Str ''doc.pdf'') (Str ''rotated.pdf'') (- 90)) =
     Inr (Path (Str ''rotated.pdf'')) \<and>
   map_option content
     (snd (rotate_pdf strict_pdflib example_fs (Str ''doc.pdf'') (Str ''rotated.pdf'') (- 90))
        (Path (Str ''rotated.pdf''))) =
     Some (pdf_magic @ [0x41, 166, 0x42, 166]) \<and>
   snd (rotate_pdf strict_pdflib example_fs (Str ''doc.pdf'') (Str ''rotated.pdf'') 45) =
     example_fs"
proof -
  have h1: "validate_pdf example_fs (Str ''doc.pdf'') = Inr True"
    by code_simp
  have h2: "PdfReader example_pdflib example_fs (Path (Str ''doc.pdf'')) =
      Inr [(0x41, 0), (0x42, 0)]"
    by code_simp
  have h2': "PdfReader strict_pdflib example_fs (Path (Str ''doc.pdf'')) =
      Inr [(0x41, 0), (0x42, 0)]"
    by code_simp
  have h3: "\<forall>page \<in> set [(0x41 :: byte, 0 :: int), (0x42, 0)].
      \<not> isl (page_rotate example_pdflib page 45)"
    by code_simp
  have h3': "\<forall>page \<in> set [(0x41 :: byte, 0 :: int), (0x42, 0)].
      \<not> isl (page_rotate strict_pdflib page (- 90))"
    by code_simp
  have h3'': "\<exists>page \<in> set [(0x41 :: byte, 0 :: int), (0x42, 0)].
      isl (page_rotate strict_pdflib page 45)"
    by code_simp
  have h4: "is_dir example_fs (parent (Path (Str ''rotated.pdf'')))"
    by code_simp
  have h5: "\<not> is_dir example_fs (Path (Str ''rotated.pdf''))"
    by code_simp
  have h6: "write_pages example_pdflib
      (map (\<lambda>page. projr (page_rotate example_pdflib page 45)) [(0x41, 0), (0x42, 0)]) =
      Inr (pdf_magic @ [0x41, 45, 0x42, 45])"
    by code_simp
  have h6': "write_pages strict_pdflib
      (map (\<lambda>page. projr (page_rotate strict_pdflib page (- 90))) [(0x41, 0), (0x42, 0)]) =
      Inr (pdf_magic @ [0x41, 166, 0x42, 166])"
    by code_simp
  from rotate_passes_angle_to_library [OF h1 h2, of 45 "Str ''rotated.pdf''"
      "pdf_magic @ [0x41, 45, 0x42, 45]"] h3 h4 h5 h6
  have a: "fst (rotate_pdf example_pdflib example_fs (Str ''doc.pdf'') (Str ''rotated.pdf'') 45) =
       Inr (Path (Str ''rotated.pdf'')) \<and>
     map_option content
       (snd (rotate_pdf example_pdflib example_fs (Str ''doc.pdf'') (Str ''rotated.pdf'') 45)
          (Path (Str ''rotated.pdf''))) =
       Some (pdf_magic @ [0x41, 45, 0x42, 45])"
    by blast
  from rotate_passes_angle_to_library [OF h1 h2', of "- 90" "Str ''rotated.pdf''"
      "pdf_magic @ [0x41, 166, 0x42, 166]"] h3' h4 h5 h6'
  have b: "fst (rotate_pdf strict_pdflib example_fs (Str ''doc.pdf'') (Str ''rotated.pdf'')
        (- 90)) = Inr (Path (Str ''rotated.pdf'')) \<and>
     map_option content
       (snd (rotate_pdf strict_pdflib example_fs (Str ''doc.pdf'') (Str ''rotated.pdf'')
          (- 90)) (Path (Str ''rotated.pdf''))) =
       Some (pdf_magic @ [0x41, 166, 0x42, 166])"
    by blast
  from rotate_passes_angle_to_library [OF h1 h2', of 45 "Str ''rotated.pdf''"] h3''
  have c: "snd (rotate_pdf strict_pdflib example_fs (Str ''doc.pdf'') (Str ''rotated.pdf'') 45) =
     example_fs"
    by auto
  from a b c show ?thesis
    by blast
qed

text \<open>
  The directories \<^verbatim>\<open>out\<close> and \<^verbatim>\<open>new_dir/nested\<close> do not exist: merging and
  converting make \<^verbatim>\<open>out\<close> and write into it, splitting makes \<^verbatim>\<open>new_dir/nested\<close>, also
  for a document without pages, and rotating fails and makes nothing.
\<close>

theorem output_directory_made_before_writing_witness:
  "\<not> exists example_fs (parent (Path (Str ''out/merged.pdf''))) \<and>
   is_dir (snd (merge_pdfs example_pdflib example_fs [Str ''doc.pdf'']
                  (Str ''out/merged.pdf''))) (parent (Path (Str ''out/merged.pdf''))) \<and>
   fst (merge_pdfs example_pdflib example_fs [Str ''doc.pdf''] (Str ''out/merged.pdf'')) =
     Inr (Path (Str ''out/merged.pdf'')) \<and>
   is_dir (snd (convert_images_to_pdf example_imglib example_fs [Str ''scan.png'']
                  (Str ''out/merged.pdf''))) (parent (Path (Str ''out/merged.pdf''))) \<and>
   fst (convert_images_to_pdf example_imglib example_fs [Str ''scan.png'']
          (Str ''out/merged.pdf'')) = Inr (Path (Str ''out/merged.pdf'')) \<and>
   \<not> exists example_fs (Path (Str ''new_dir/nested'')) \<and>
   is_dir (snd (split_pdf example_pdflib example_fs (Str ''doc.pdf'')
                  (Str ''new_dir/nested''))) (Path (Str ''new_dir/nested'')) \<and>
   is_dir (snd (split_pdf example_pdflib
                  (example_fs(PurePath False [''empty.pdf''] \<mapsto> RegularFile None pdf_magic))
                  (Str ''empty.pdf'') (Str ''new_dir/nested''))) (Path (Str ''new_dir/nested'')) \<and>
   rotate_pdf example_pdflib example_fs (Str ''doc.pdf'') (Str ''out/merged.pdf'') 90 =
     (Inl (PDFActionError ''Failed to rotate PDF: No such file or directory''), example_fs)"
proof -
  have a: "\<not> exists example_fs (parent (Path (Str ''out/merged.pdf'')))"
    by code_simp
  have m1: "validate_paths example_fs [Str ''doc.pdf''] ''pdf'' =
      Inr [PurePath False [''doc.pdf'']]"
    by code_simp
  have m2: "merger_append example_pdflib example_fs [PurePath False [''doc.pdf'']] [] =
      Inr [(0x41, 0), (0x42, 0)]"
    by code_simp
  have m3: "\<not> isl (mkdir example_fs (parent (Path (Str ''out/merged.pdf''))) True True)"
    by code_simp
  have m4: "\<not> is_dir (projr (mkdir example_fs (parent (Path (Str ''out/merged.pdf'')))
      True True)) (Path (Str ''out/merged.pdf''))"
    by code_simp
  have m5: "\<not> isl (write_pages example_pdflib [(0x41, 0), (0x42, 0)])"
    by code_simp
  have c1: "validate_paths example_fs [Str ''scan.png''] ''image'' =
      Inr [PurePath False [''scan.png'']]"
    by code_simp
  have c2: "open_images example_imglib example_fs [PurePath False [''scan.png'']] [] =
      Inr [(''RGB'', png_magic @ [1, 2, 3])]"
    by code_simp
  have c5: "\<not> isl (image_save example_imglib (''RGB'', png_magic @ [1, 2, 3]) [])"
    by code_simp
  have d: "\<not> exists example_fs (Path (Str ''new_dir/nested''))"
    by code_simp
  have s1: "validate_pdf example_fs (Str ''doc.pdf'') = Inr True"
    by code_simp
  have s2: "\<not> isl (mkdir example_fs (Path (Str ''new_dir/nested'')) True True)"
    by code_simp
  have e1: "validate_pdf
      (example_fs(PurePath False [''empty.pdf''] \<mapsto> RegularFile None pdf_magic))
      (Str ''empty.pdf'') = Inr True"
    by code_simp
  have e2: "\<not> isl (mkdir
      (example_fs(PurePath False [''empty.pdf''] \<mapsto> RegularFile None pdf_magic))
      (Path (Str ''new_dir/nested'')) True True)"
    by code_simp
  have f: "fst (rotate_pdf example_pdflib example_fs (Str ''doc.pdf'')
      (Str ''out/merged.pdf'') 90) =
      Inl (PDFActionError ''Failed to rotate PDF: No such file or directory'')"
    by code_simp
  from output_directory_made_before_writing [where fs = example_fs
        and output_path = "Str ''out/merged.pdf''" and lib = example_pdflib
        and file_paths = "[Str ''doc.pdf'']" and vs = "[PurePath False [''doc.pdf'']]"
        and doc = "[(0x41, 0), (0x42, 0)]"
        and ilib = example_imglib and image_paths = "[Str ''scan.png'']"
        and ivs = "[PurePath False [''scan.png'']]"
        and first_image = "(''RGB'', png_magic @ [1, 2, 3])" and rest_images = "[]"
        and output_dir = "Str ''new_dir/nested''" and file_path = "Str ''doc.pdf''"
        and rotation = 90]
    a m1 m2 m3 m4 m5 c1 c2 c5 s1 s2 f
  have x: "is_dir (snd (merge_pdfs example_pdflib example_fs [Str ''doc.pdf'']
                  (Str ''out/merged.pdf''))) (parent (Path (Str ''out/merged.pdf''))) \<and>
   fst (merge_pdfs example_pdflib example_fs [Str ''doc.pdf''] (Str ''out/merged.pdf'')) =
     Inr (Path (Str ''out/merged.pdf'')) \<and>
   is_dir (snd (convert_images_to_pdf example_imglib example_fs [Str ''scan.png'']
                  (Str ''out/merged.pdf''))) (parent (Path (Str ''out/merged.pdf''))) \<and>
   fst (convert_images_to_pdf example_imglib example_fs [Str ''scan.png'']
          (Str ''out/merged.pdf'')) = Inr (Path (Str ''out/merged.pdf'')) \<and>
   is_dir (snd (split_pdf example_pdflib example_fs (Str ''doc.pdf'')
                  (Str ''new_dir/nested''))) (Path (Str ''new_dir/nested'')) \<and>
   rotate_pdf example_pdflib example_fs (Str ''doc.pdf'') (Str ''out/merged.pdf'') 90 =
     (Inl (PDFActionError ''Failed to rotate PDF: No such file or directory''), example_fs)"
    by auto
  from output_directory_made_before_writing [where
        fs = "example_fs(PurePath False [''empty.pdf''] \<mapsto> RegularFile None pdf_magic)"
        and lib = example_pdflib and ilib = example_imglib
        and output_dir = "Str ''new_dir/nested''" and file_path = "Str ''empty.pdf''"]
    e1 e2
  have y: "is_dir (snd (split_pdf example_pdflib
                  (example_fs(PurePath False [''empty.pdf''] \<mapsto> RegularFile None pdf_magic))
                  (Str ''empty.pdf'') (Str ''new_dir/nested''))) (Path (Str ''new_dir/nested''))"
    by blast
  from a d x y show ?thesis
    by blast
qed

end
